theory Spec2Isabelle
  imports Main
begin

section \<open>JavaScript strings\<close>

text \<open>
  The module \<^verbatim>\<open>src/utils/web-search.js\<close> works on JavaScript strings. A string is modelled
  as a \<^typ>\<open>string\<close>, one \<^typ>\<open>char\<close> per code unit; the code units are those below
  256, read as Latin-1. \<^verbatim>\<open>s.length\<close> is \<^term>\<open>length s\<close> and
  \<^verbatim>\<open>s.substring(0, n)\<close>, for a natural number \<open>n\<close>, is \<^term>\<open>take n s\<close>.
\<close>

text \<open>
  White space and line terminators: what \<^verbatim>\<open>\s\<close> matches and what \<^verbatim>\<open>trim()\<close>
  removes (tab, line feed, vertical tab, form feed, carriage return, space, no-break space).
\<close>

definition isWhiteSpace :: "char \<Rightarrow> bool" where
  "isWhiteSpace x = (x \<in> set [CHR 0x09, CHR 0x0A, CHR 0x0B, CHR 0x0C, CHR 0x0D, CHR 0x20, CHR 0xA0])"

definition isLineTerminator :: "char \<Rightarrow> bool" where
  "isLineTerminator x = (x \<in> set [CHR 0x0A, CHR 0x0D])"

definition trim :: "string \<Rightarrow> string" where
  "trim s = rev (dropWhile isWhiteSpace (rev (dropWhile isWhiteSpace s)))"

fun startsWith :: "string \<Rightarrow> string \<Rightarrow> bool" where
  "startsWith s [] = True"
| "startsWith [] (p # ps) = False"
| "startsWith (x # xs) (p # ps) = (x = p \<and> startsWith xs ps)"

fun includes_str :: "string \<Rightarrow> string \<Rightarrow> bool" where
  "includes_str [] sub = (sub = [])"
| "includes_str (x # xs) sub = (startsWith (x # xs) sub \<or> includes_str xs sub)"

text \<open>
  \<^verbatim>\<open>s.split(sep)\<close> for a string separator. With a non-empty separator the scan restarts
  right after each occurrence: \<^term>\<open>drop (length sep - 1) xs\<close> is the input after an
  occurrence that starts at \<open>x\<close>. The empty separator splits between code units.
\<close>

fun split_from :: "string \<Rightarrow> string \<Rightarrow> string \<Rightarrow> string list" where
  "split_from sep cur [] = [cur]"
| "split_from sep cur (x # xs) =
     (if startsWith (x # xs) sep then cur # split_from sep [] (drop (length sep - 1) xs)
      else split_from sep (cur @ [x]) xs)"

definition split :: "string \<Rightarrow> string \<Rightarrow> string list" where
  "split s sep = (if sep = [] then map (\<lambda>x. [x]) s else split_from sep [] s)"

text \<open>
  Decimal numerals, as a template literal prints an integer of magnitude below
  \<open>10 ^ 21\<close>. \<open>digit_char d\<close> is the digit of value \<open>d\<close>, for \<open>d\<close> below 16.
\<close>

definition digit_char :: "nat \<Rightarrow> char" where
  "digit_char d = ''0123456789ABCDEF'' ! d"

fun show_nat :: "nat \<Rightarrow> string" where
  "show_nat n = (if n < 10 then [digit_char n] else show_nat (n div 10) @ [digit_char (n mod 10)])"

declare show_nat.simps [simp del]

definition show_int :: "int \<Rightarrow> string" where
  "show_int i = (if i < 0 then CHR ''-'' # show_nat (nat (- i)) else show_nat (nat i))"

section \<open>Regular expressions\<close>

text \<open>
  The regular expressions of the module, as syntax trees, with the backtracking matcher of
  ECMAScript: a matcher takes a continuation, and an alternative is tried only when the
  continuation has failed on every earlier one. Every quantifier of the module stands on
  a character class: \<open>Star True p\<close> is the greedy \<^verbatim>\<open>[p]*\<close>, \<open>Star False p\<close> the lazy
  \<^verbatim>\<open>[p]*?\<close>. \<open>Look\<close> is the lookahead \<^verbatim>\<open>(?=...)\<close>; \<open>Eoi\<close> is \<^verbatim>\<open>$\<close> without the
  multiline flag. The input is the part of the string from the current position on; none
  of the expressions looks to the left of it. A capture is kept as the input at the start
  and at the end of its group.
\<close>

type_synonym caps = "nat \<Rightarrow> (string \<times> string) option"
type_synonym mres = "(string \<times> caps) option"

datatype re =
    Sym "char \<Rightarrow> bool"
  | Eps
  | Seq re re
  | Alt re re
  | Star bool "char \<Rightarrow> bool"
  | Group nat re
  | Look re
  | Eoi

function matcher :: "re \<Rightarrow> (string \<Rightarrow> caps \<Rightarrow> mres) \<Rightarrow> string \<Rightarrow> caps \<Rightarrow> mres" where
  "matcher (Sym p) k s c = (case s of [] \<Rightarrow> None | x # xs \<Rightarrow> if p x then k xs c else None)"
| "matcher Eps k s c = k s c"
| "matcher (Seq r1 r2) k s c = matcher r1 (\<lambda>s' c'. matcher r2 k s' c') s c"
| "matcher (Alt r1 r2) k s c =
     (case matcher r1 k s c of Some y \<Rightarrow> Some y | None \<Rightarrow> matcher r2 k s c)"
| "matcher (Star greedy p) k [] c = k [] c"
| "matcher (Star greedy p) k (x # xs) c =
     (if p x then
        if greedy then
          (case matcher (Star greedy p) k xs c of
             Some y \<Rightarrow> Some y
           | None \<Rightarrow> k (x # xs) c)
        else
          (case k (x # xs) c of
             Some y \<Rightarrow> Some y
           | None \<Rightarrow> matcher (Star greedy p) k xs c)
      else k (x # xs) c)"
| "matcher (Group n r) k s c = matcher r (\<lambda>s' c'. k s' (c'(n \<mapsto> (s, s')))) s c"
| "matcher (Look r) k s c =
     (case matcher r (\<lambda>s' c'. Some (s', c')) s c of
        None \<Rightarrow> None
      | Some (s', c') \<Rightarrow> k s c')"
| "matcher Eoi k s c = (if s = [] then k s c else None)"
  by pat_completeness auto
termination
  by (relation "inv_image (measure size <*lex*> measure length) (\<lambda>(r, k, s, c). (r, s))") auto

text \<open>
  A match, as \<^verbatim>\<open>exec\<close> returns it: \<open>whole\<close> is \<^verbatim>\<open>match[0]\<close>, \<open>group\<close> holds the
  captures, \<open>before\<close> is the input skipped before the match and \<open>after\<close> the input from
  the new \<^verbatim>\<open>lastIndex\<close> on.
\<close>

record rmatch =
  before :: string
  whole :: string
  group :: caps
  after :: string

text \<open>The text between two positions of the input, the second one further on.\<close>

definition between :: "string \<Rightarrow> string \<Rightarrow> string" where
  "between s s' = take (length s - length s') s"

text \<open>
  \<^verbatim>\<open>re.exec(s)\<close> for a global expression, on the input from \<^verbatim>\<open>lastIndex\<close> on: the
  leftmost position where the expression matches. \<open>skipped\<close> is the input passed over so
  far, last code unit first.
\<close>

fun exec_from :: "re \<Rightarrow> string \<Rightarrow> string \<Rightarrow> rmatch option" where
  "exec_from r skipped [] =
     (case matcher r (\<lambda>s' c'. Some (s', c')) [] Map.empty of
        Some (s', c) \<Rightarrow> Some \<lparr>before = rev skipped, whole = [], group = c, after = s'\<rparr>
      | None \<Rightarrow> None)"
| "exec_from r skipped (x # xs) =
     (case matcher r (\<lambda>s' c'. Some (s', c')) (x # xs) Map.empty of
        Some (s', c) \<Rightarrow>
          Some \<lparr>before = rev skipped, whole = between (x # xs) s', group = c, after = s'\<rparr>
      | None \<Rightarrow> exec_from r (x # skipped) xs)"

definition exec :: "re \<Rightarrow> string \<Rightarrow> rmatch option" where
  "exec r s = exec_from r [] s"

text \<open>
  \<^verbatim>\<open>match[n]\<close> for a group that takes part in every match of its expression, which holds
  for every group of the expressions below (none stands under a quantifier or in an
  alternative).
\<close>

definition capture :: "rmatch \<Rightarrow> nat \<Rightarrow> string" where
  "capture m n = (case group m n of Some (s, s') \<Rightarrow> between s s' | None \<Rightarrow> [])"

text \<open>An expression that cannot match the empty string.\<close>

fun consuming :: "re \<Rightarrow> bool" where
  "consuming (Sym p) = True"
| "consuming Eps = False"
| "consuming (Seq r1 r2) = (consuming r1 \<or> consuming r2)"
| "consuming (Alt r1 r2) = (consuming r1 \<and> consuming r2)"
| "consuming (Star greedy p) = False"
| "consuming (Group n r) = consuming r"
| "consuming (Look r) = False"
| "consuming Eoi = False"

lemma matcher_suffix:
  "matcher r k s c = Some y \<Longrightarrow> \<exists>s' c'. length s' \<le> length s \<and> k s' c' = Some y"
proof (induction r k s c rule: matcher.induct)
  case (1 p k s c)
  then obtain x xs where "s = x # xs" and "k xs c = Some y"
    by (cases s) (auto split: if_splits)
  then have "length xs \<le> length s \<and> k xs c = Some y" by simp
  then show ?case by blast
next
  case (2 k s c)
  then show ?case by auto
next
  case (3 r1 r2 k s c)
  from "3.prems" have "matcher r1 (\<lambda>s' c'. matcher r2 k s' c') s c = Some y" by simp
  from "3.IH"(2) [OF this] obtain s1 c1
    where s1: "length s1 \<le> length s" and m2: "matcher r2 k s1 c1 = Some y" by blast
  from "3.IH"(1) [OF m2] obtain s2 c2
    where "length s2 \<le> length s1" and "k s2 c2 = Some y" by blast
  with s1 show ?case by (meson le_trans)
next
  case (4 r1 r2 k s c)
  then show ?case by (auto split: option.splits)
next
  case (5 greedy p k c)
  then show ?case by auto
next
  case (6 greedy p k x xs c)
  show ?case
  proof (cases "k (x # xs) c = Some y")
    case True
    then have "length (x # xs) \<le> length (x # xs) \<and> k (x # xs) c = Some y" by simp
    then show ?thesis by blast
  next
    case False
    with "6.prems" have px: "p x" and iter: "matcher (Star greedy p) k xs c = Some y"
      by (auto split: if_splits option.splits)
    have "\<exists>s' c'. length s' \<le> length xs \<and> k s' c' = Some y"
    proof (cases greedy)
      case True
      from "6.IH"(1) [OF px True iter] show ?thesis .
    next
      case lazy: False
      with False "6.prems" px have "k (x # xs) c = None"
        by (auto split: option.splits)
      from "6.IH"(2) [OF px lazy this iter] show ?thesis .
    qed
    then obtain s' c' where "length s' \<le> length xs" and "k s' c' = Some y" by blast
    then have "length s' \<le> length (x # xs) \<and> k s' c' = Some y" by simp
    then show ?thesis by blast
  qed
next
  case (7 n r k s c)
  then show ?case by fastforce
next
  case (8 r k s c)
  then show ?case by (auto split: option.splits)
next
  case (9 k s c)
  then show ?case by (auto split: if_splits)
qed

lemma matcher_consuming:
  "consuming r \<Longrightarrow> matcher r k s c = Some y \<Longrightarrow>
     \<exists>s' c'. length s' < length s \<and> k s' c' = Some y"
proof (induction r arbitrary: k s c)
  case (Sym p)
  then obtain x xs where "s = x # xs" and "k xs c = Some y"
    by (cases s) (auto split: if_splits)
  then have "length xs < length s \<and> k xs c = Some y" by simp
  then show ?case by blast
next
  case (Seq r1 r2)
  from Seq.prems(2) have run: "matcher r1 (\<lambda>s' c'. matcher r2 k s' c') s c = Some y" by simp
  show ?case
  proof (cases "consuming r1")
    case True
    from Seq.IH(1) [OF True run] obtain s1 c1
      where s1: "length s1 < length s" and m2: "matcher r2 k s1 c1 = Some y" by blast
    from matcher_suffix [OF m2] obtain s2 c2
      where "length s2 \<le> length s1" and "k s2 c2 = Some y" by blast
    with s1 show ?thesis by (meson le_less_trans)
  next
    case False
    with Seq.prems(1) have c2: "consuming r2" by simp
    from matcher_suffix [OF run] obtain s1 c1
      where s1: "length s1 \<le> length s" and m2: "matcher r2 k s1 c1 = Some y" by blast
    from Seq.IH(2) [OF c2 m2] obtain s2 c2
      where "length s2 < length s1" and "k s2 c2 = Some y" by blast
    with s1 show ?thesis by (meson less_le_trans)
  qed
next
  case (Alt r1 r2)
  then show ?case by (auto split: option.splits)
next
  case (Group n r)
  from Group.prems have c: "consuming r"
    and run: "matcher r (\<lambda>s' c'. k s' (c'(n \<mapsto> (s, s')))) s c = Some y"
    by simp_all
  from Group.IH [OF c run] show ?case by blast
qed simp_all

lemma exec_from_after_le:
  "exec_from r skipped s = Some m \<Longrightarrow> length (after m) \<le> length s"
proof (induction s arbitrary: skipped)
  case Nil
  then obtain s' c where "matcher r (\<lambda>s' c'. Some (s', c')) [] Map.empty = Some (s', c)"
    and "after m = s'"
    by (auto split: option.splits)
  with matcher_suffix [of r "\<lambda>s' c'. Some (s', c')" "[]" Map.empty "(s', c)"]
  show ?case by auto
next
  case (Cons x xs)
  show ?case
  proof (cases "matcher r (\<lambda>s' c'. Some (s', c')) (x # xs) Map.empty")
    case None
    with Cons.prems have "exec_from r (x # skipped) xs = Some m" by simp
    from Cons.IH [OF this] show ?thesis by simp
  next
    case (Some y)
    obtain s' c where y: "y = (s', c)" by (cases y)
    with Some Cons.prems have "after m = s'" by auto
    with matcher_suffix [of r "\<lambda>s' c'. Some (s', c')" "x # xs" Map.empty "(s', c)"] Some y
    show ?thesis by auto
  qed
qed

lemma exec_from_consuming:
  "consuming r \<Longrightarrow> exec_from r skipped s = Some m \<Longrightarrow> length (after m) < length s"
proof (induction s arbitrary: skipped)
  case Nil
  then obtain s' c where "matcher r (\<lambda>s' c'. Some (s', c')) [] Map.empty = Some (s', c)"
    by (auto split: option.splits)
  with matcher_consuming [of r "\<lambda>s' c'. Some (s', c')" "[]" Map.empty "(s', c)"] Nil.prems(1)
  show ?case by auto
next
  case (Cons x xs)
  show ?case
  proof (cases "matcher r (\<lambda>s' c'. Some (s', c')) (x # xs) Map.empty")
    case None
    with Cons.prems have "exec_from r (x # skipped) xs = Some m" by simp
    from Cons.IH [OF Cons.prems(1) this] show ?thesis by simp
  next
    case (Some y)
    obtain s' c where y: "y = (s', c)" by (cases y)
    with Some Cons.prems have "after m = s'" by auto
    with matcher_consuming [of r "\<lambda>s' c'. Some (s', c')" "x # xs" Map.empty "(s', c)"]
      Some y Cons.prems(1)
    show ?thesis by auto
  qed
qed

lemma exec_from_whole:
  "exec_from r skipped s = Some m \<Longrightarrow> whole m \<noteq> [] \<Longrightarrow> length (after m) < length s"
proof (induction s arbitrary: skipped)
  case Nil
  then show ?case by (auto split: option.splits prod.splits)
next
  case (Cons x xs)
  show ?case
  proof (cases "matcher r (\<lambda>s' c'. Some (s', c')) (x # xs) Map.empty")
    case None
    with Cons.prems have "exec_from r (x # skipped) xs = Some m" by simp
    from Cons.IH [OF this Cons.prems(2)] show ?thesis by simp
  next
    case (Some y)
    obtain s' c where y: "y = (s', c)" by (cases y)
    with Some Cons.prems(1)
    have "after m = s'" and "whole m = between (x # xs) s'"
      by auto
    with Cons.prems(2) show ?thesis
      by (cases "length s' < length (x # xs)") (auto simp add: between_def)
  qed
qed

lemma exec_after_le: "exec r s = Some m \<Longrightarrow> length (after m) \<le> length s"
  unfolding exec_def by (rule exec_from_after_le)

lemma exec_consuming: "consuming r \<Longrightarrow> exec r s = Some m \<Longrightarrow> length (after m) < length s"
  unfolding exec_def by (rule exec_from_consuming)

lemma exec_whole: "exec r s = Some m \<Longrightarrow> whole m \<noteq> [] \<Longrightarrow> length (after m) < length s"
  unfolding exec_def by (rule exec_from_whole)

text \<open>
  \<^verbatim>\<open>s.replace(re, rep)\<close> and \<^verbatim>\<open>s.match(re)\<close> for a global expression. After an empty
  match the scan moves on by one code unit. \<^verbatim>\<open>match\<close> returns the matched strings, and the
  empty list stands for \<^verbatim>\<open>null\<close>.
\<close>

function replace_all :: "re \<Rightarrow> string \<Rightarrow> string \<Rightarrow> string" where
  "replace_all r rep s =
     (case exec r s of
        None \<Rightarrow> s
      | Some m \<Rightarrow>
          before m @ rep @
          (if whole m = [] then (case after m of [] \<Rightarrow> [] | x # xs \<Rightarrow> x # replace_all r rep xs)
           else replace_all r rep (after m)))"
  by pat_completeness auto
termination
proof (relation "measure (\<lambda>(r, rep, s). length s)")
  show "wf (measure (\<lambda>(r, rep, s). length s))" by simp
next
  fix r :: re and rep s :: string and m x xs
  assume "exec r s = Some m" and "after m = x # xs"
  with exec_after_le [of r s m] show "((r, rep, xs), (r, rep, s)) \<in> measure (\<lambda>(r, rep, s). length s)"
    by simp
next
  fix r :: re and rep s :: string and m
  assume "exec r s = Some m" and "whole m \<noteq> []"
  with exec_whole [of r s m] show "((r, rep, after m), (r, rep, s)) \<in> measure (\<lambda>(r, rep, s). length s)"
    by simp
qed

function match_all :: "re \<Rightarrow> string \<Rightarrow> string list" where
  "match_all r s =
     (case exec r s of
        None \<Rightarrow> []
      | Some m \<Rightarrow>
          whole m #
          (if whole m = [] then (case after m of [] \<Rightarrow> [] | x # xs \<Rightarrow> match_all r xs)
           else match_all r (after m)))"
  by pat_completeness auto
termination
proof (relation "measure (\<lambda>(r, s). length s)")
  show "wf (measure (\<lambda>(r, s). length s))" by simp
next
  fix r :: re and s :: string and m x xs
  assume "exec r s = Some m" and "after m = x # xs"
  with exec_after_le [of r s m] show "((r, xs), (r, s)) \<in> measure (\<lambda>(r, s). length s)"
    by simp
next
  fix r :: re and s :: string and m
  assume "exec r s = Some m" and "whole m \<noteq> []"
  with exec_whole [of r s m] show "((r, after m), (r, s)) \<in> measure (\<lambda>(r, s). length s)"
    by simp
qed

declare replace_all.simps [simp del] match_all.simps [simp del]

subsection \<open>The expressions of the module\<close>

text \<open>
  Building blocks. \<open>lit\<close> is a literal text; \<open>lit_i\<close> is a literal text under the
  \<^verbatim>\<open>i\<close> flag, where a code unit of the pattern matches itself and, when it is one of
  the letters a to z or A to Z, the same letter in the other case (no code unit from 128
  on has the canonical form of such a letter); \<open>plus\<close> is \<^verbatim>\<open>+\<close> and \<^verbatim>\<open>+?\<close> on a
  class, \<open>opt\<close> is the greedy \<^verbatim>\<open>?\<close>; \<open>noneOf cs\<close> is the class \<^verbatim>\<open>[^cs]\<close>.
\<close>

definition other_case :: "char \<Rightarrow> char" where
  "other_case x =
     (case map_of (zip ''abcdefghijklmnopqrstuvwxyzABCDEFGHIJKLMNOPQRSTUVWXYZ''
                       ''ABCDEFGHIJKLMNOPQRSTUVWXYZabcdefghijklmnopqrstuvwxyz'') x of
        Some u \<Rightarrow> u
      | None \<Rightarrow> x)"

definition lit :: "string \<Rightarrow> re" where
  "lit s = foldr (\<lambda>ch r. Seq (Sym (\<lambda>x. x = ch)) r) s Eps"

definition lit_i :: "string \<Rightarrow> re" where
  "lit_i s = foldr (\<lambda>ch r. Seq (Sym (\<lambda>x. x = ch \<or> x = other_case ch)) r) s Eps"

definition cat :: "re list \<Rightarrow> re" where
  "cat rs = foldr Seq rs Eps"

definition plus :: "bool \<Rightarrow> (char \<Rightarrow> bool) \<Rightarrow> re" where
  "plus greedy p = Seq (Sym p) (Star greedy p)"

definition opt :: "re \<Rightarrow> re" where
  "opt r = Alt r Eps"

definition noneOf :: "string \<Rightarrow> char \<Rightarrow> bool" where
  "noneOf cs x = (x \<notin> set cs)"

definition isDigit :: "char \<Rightarrow> bool" where
  "isDigit x = (x \<in> set ''0123456789'')"

text \<open>\<^verbatim>\<open>/\[(\d+)\]\s*(.+?)(?=\[|$)/g\<close>\<close>

definition citationRegex :: re where
  "citationRegex =
     cat [lit ''['', Group 1 (plus True isDigit), lit '']'', Star True isWhiteSpace,
          Group 2 (plus False (\<lambda>x. \<not> isLineTerminator x)),
          Look (Alt (lit ''['') Eoi)]"

text \<open>\<^verbatim>\<open>/https?:\/\/[^\s\)]+/g\<close>\<close>

definition urlRegex :: re where
  "urlRegex =
     cat [lit ''http'', opt (lit ''s''), lit ''://'',
          plus True (\<lambda>x. \<not> isWhiteSpace x \<and> x \<noteq> CHR '')'')]"

text \<open>\<^verbatim>\<open>/<a[^>]*class="[^"]*result__a[^"]*"[^>]*href="([^"]*)"[^>]*>([^<]*)<\/a>/gi\<close>\<close>

definition modernRegex :: re where
  \<open>modernRegex =
     cat [lit_i ''<a'', Star True (noneOf ''>''), lit_i ''class="'',
          Star True (noneOf ''"''), lit_i ''result__a'', Star True (noneOf ''"''),
          lit_i ''"'', Star True (noneOf ''>''), lit_i ''href="'',
          Group 1 (Star True (noneOf ''"'')), lit_i ''"'', Star True (noneOf ''>''),
          lit_i ''>'', Group 2 (Star True (noneOf ''<'')), lit_i ''</a>'']\<close>

text \<open>\<^verbatim>\<open>/<a[^>]*class="[^"]*result__snippet[^"]*"[^>]*>([^<]*)<\/a>/gi\<close>\<close>

definition snippetRegex :: re where
  \<open>snippetRegex =
     cat [lit_i ''<a'', Star True (noneOf ''>''), lit_i ''class="'',
          Star True (noneOf ''"''), lit_i ''result__snippet'',
          Star True (noneOf ''"''), lit_i ''"'', Star True (noneOf ''>''),
          lit_i ''>'', Group 1 (Star True (noneOf ''<'')), lit_i ''</a>'']\<close>

text \<open>\<^verbatim>\<open>/<a[^>]*href="(https?:\/\/[^"]+)"[^>]*>([^<]+)<\/a>/gi\<close>\<close>

definition genericLinkRegex :: re where
  \<open>genericLinkRegex =
     cat [lit_i ''<a'', Star True (noneOf ''>''), lit_i ''href="'',
          Group 1 (cat [lit_i ''http'', opt (lit_i ''s''), lit_i ''://'',
                        plus True (noneOf ''"'')]),
          lit_i ''"'', Star True (noneOf ''>''), lit_i ''>'',
          Group 2 (plus True (noneOf ''<'')), lit_i ''</a>'']\<close>

text \<open>\<^verbatim>\<open>/<[^>]+>/g\<close>\<close>

definition tagRegex :: re where
  "tagRegex = cat [lit ''<'', plus True (noneOf ''>''), lit ''>'']"

text \<open>\<^verbatim>\<open>/<script[^>]*>[\s\S]*?<\/script>/gi\<close> and \<^verbatim>\<open>/<style[^>]*>[\s\S]*?<\/style>/gi\<close>\<close>

definition scriptRegex :: re where
  "scriptRegex =
     cat [lit_i ''<script'', Star True (noneOf ''>''), lit_i ''>'',
          Star False (\<lambda>x. True), lit_i ''</script>'']"

definition styleRegex :: re where
  "styleRegex =
     cat [lit_i ''<style'', Star True (noneOf ''>''), lit_i ''>'',
          Star False (\<lambda>x. True), lit_i ''</style>'']"

text \<open>\<^verbatim>\<open>/\s+/g\<close>\<close>

definition spacesRegex :: re where
  "spacesRegex = plus True isWhiteSpace"

lemma consuming_citationRegex: "consuming citationRegex"
  by (simp add: citationRegex_def cat_def lit_def)

lemma consuming_modernRegex: "consuming modernRegex"
  by (simp add: modernRegex_def cat_def lit_i_def)

lemma consuming_snippetRegex: "consuming snippetRegex"
  by (simp add: snippetRegex_def cat_def lit_i_def)

lemma consuming_genericLinkRegex: "consuming genericLinkRegex"
  by (simp add: genericLinkRegex_def cat_def lit_i_def)

section \<open>JavaScript values and exceptions\<close>

text \<open>
  The values the module handles without knowing their type: the \<^verbatim>\<open>html\<close> and
  \<^verbatim>\<open>content\<close> arguments of the two parsers and the decoded body of the API response.
  \<open>JNumber i\<close> is the integral number \<open>i\<close>; the members of an object are values of this
  type, none of them a function. An exception is an \<^verbatim>\<open>Error\<close> object, of which the
  module reads the \<^verbatim>\<open>message\<close>; a \<^verbatim>\<open>TypeError\<close> and a \<^verbatim>\<open>RangeError\<close> are raised by the
  language itself.
\<close>

datatype jsval =
    JUndefined
  | JNull
  | JBool bool
  | JNumber int
  | JString string
  | JSymbol
  | JArray "jsval list"
  | JObject "(string \<times> jsval) list"

datatype js_error =
    Error (message: string)
  | TypeError (message: string)
  | RangeError (message: string)

text \<open>
  The conversion \<^verbatim>\<open>ToString\<close>, which \<^verbatim>\<open>exec\<close> applies to its argument. It throws on a
  symbol, and on an object with a member \<^verbatim>\<open>toString\<close> of its own, which is not a function
  and hides the inherited one. An array prints its elements separated by commas,
  \<^verbatim>\<open>undefined\<close> and \<^verbatim>\<open>null\<close> elements as the empty string.
\<close>

fun toString :: "jsval \<Rightarrow> js_error + string"
  and join_elements :: "jsval list \<Rightarrow> js_error + string" where
  "toString JUndefined = Inr ''undefined''"
| "toString JNull = Inr ''null''"
| "toString (JBool b) = Inr (if b then ''true'' else ''false'')"
| "toString (JNumber i) = Inr (show_int i)"
| "toString (JString s) = Inr s"
| "toString JSymbol = Inl (TypeError ''Cannot convert a Symbol value to a string'')"
| "toString (JArray xs) = join_elements xs"
| "toString (JObject kvs) =
     (if ''toString'' \<in> set (map fst kvs)
      then Inl (TypeError ''Cannot convert object to primitive value'')
      else Inr ''[object Object]'')"
| "join_elements [] = Inr []"
| "join_elements (x # xs) =
     (case (if x = JUndefined \<or> x = JNull then Inr [] else toString x) of
        Inl e \<Rightarrow> Inl e
      | Inr s \<Rightarrow>
          (case join_elements xs of
             Inl e \<Rightarrow> Inl e
           | Inr t \<Rightarrow> Inr (if xs = [] then s else s @ '','' @ t)))"

text \<open>
  \<^verbatim>\<open>a || d\<close> for a string or \<^verbatim>\<open>undefined\<close> \<open>a\<close>: the empty string is falsy.
  \<^verbatim>\<open>xs[i]\<close> is \<^verbatim>\<open>undefined\<close> outside the array. \<open>first_part\<close> is \<^verbatim>\<open>parts[0]\<close> for
  the parts of a split, of which there is at least one.
\<close>

fun or_else :: "string option \<Rightarrow> string \<Rightarrow> string" where
  "or_else (Some (x # xs)) d = x # xs"
| "or_else (Some []) d = d"
| "or_else None d = d"

definition at_index :: "'a list \<Rightarrow> int \<Rightarrow> 'a option" where
  "at_index xs i = (if 0 \<le> i \<and> i < int (length xs) then Some (xs ! nat i) else None)"

definition first_part :: "string list \<Rightarrow> string" where
  "first_part parts = (case parts of [] \<Rightarrow> [] | p # ps \<Rightarrow> p)"

section \<open>Search results\<close>

record search_result =
  title :: string
  url :: string
  snippet :: string
  rank :: nat

subsection \<open>parsePerplexityResults\<close>

text \<open>
  One result of the loop body, from the trimmed citation text and the first URL in it:
  the title is the text before the URL, the snippet the text between it and its next
  occurrence.
\<close>

definition citation_result :: "string \<Rightarrow> string \<Rightarrow> nat \<Rightarrow> search_result" where
  "citation_result citationText u rank' =
     \<lparr>title = or_else (Some (trim (first_part (split citationText u))))
                (''Result '' @ show_nat rank'),
      url = u,
      snippet = take 200 (or_else (map_option trim (at_index (split citationText u) 1)) []),
      rank = rank'\<rparr>"

text \<open>
  The \<^verbatim>\<open>while\<close> loop: \<open>s\<close> is the content from \<^verbatim>\<open>lastIndex\<close> on. A citation
  without a URL adds nothing and leaves \<open>rank\<close> as it is.
\<close>

function citation_loop :: "int \<Rightarrow> string \<Rightarrow> search_result list \<Rightarrow> nat \<Rightarrow> search_result list" where
  "citation_loop limit s results rank' =
     (case exec citationRegex s of
        None \<Rightarrow> results
      | Some m \<Rightarrow>
          if int (length results) < limit then
            (case match_all urlRegex (trim (capture m 2)) of
               [] \<Rightarrow> citation_loop limit (after m) results rank'
             | u # us \<Rightarrow>
                 if u \<noteq> [] then
                   citation_loop limit (after m)
                     (results @ [citation_result (trim (capture m 2)) u rank']) (rank' + 1)
                 else citation_loop limit (after m) results rank')
          else results)"
  by pat_completeness auto
termination
  by (relation "measure (\<lambda>(limit, s, results, rank'). length s)")
     (auto dest: exec_consuming [OF consuming_citationRegex])

declare citation_loop.simps [simp del]

definition parsePerplexityResults :: "jsval \<Rightarrow> int \<Rightarrow> js_error + search_result list" where
  "parsePerplexityResults content limit =
     (case toString content of
        Inl e \<Rightarrow> Inl e
      | Inr s \<Rightarrow> Inr (citation_loop limit s [] 1))"

subsection \<open>parseDuckDuckGoResults\<close>

record link =
  link_url :: string
  link_title :: string

text \<open>The three scanning loops; \<open>s\<close> is the page from \<^verbatim>\<open>lastIndex\<close> on.\<close>

function modern_loop :: "int \<Rightarrow> string \<Rightarrow> link list \<Rightarrow> link list" where
  "modern_loop limit s links =
     (case exec modernRegex s of
        None \<Rightarrow> links
      | Some m \<Rightarrow>
          if int (length links) < limit * 2 then
            if \<not> includes_str (capture m 1) ''duckduckgo.com'' \<and> startsWith (capture m 1) ''http''
            then modern_loop limit (after m)
                   (links @ [\<lparr>link_url = capture m 1,
                               link_title = replace_all tagRegex [] (trim (capture m 2))\<rparr>])
            else modern_loop limit (after m) links
          else links)"
  by pat_completeness auto
termination
  by (relation "measure (\<lambda>(limit, s, links). length s)")
     (auto dest: exec_consuming [OF consuming_modernRegex])

function snippet_loop :: "int \<Rightarrow> string \<Rightarrow> string list \<Rightarrow> string list" where
  "snippet_loop limit s snippets =
     (case exec snippetRegex s of
        None \<Rightarrow> snippets
      | Some m \<Rightarrow>
          if int (length snippets) < limit * 2 then
            snippet_loop limit (after m)
              (snippets @ [replace_all tagRegex [] (trim (capture m 1))])
          else snippets)"
  by pat_completeness auto
termination
  by (relation "measure (\<lambda>(limit, s, snippets). length s)")
     (auto dest: exec_consuming [OF consuming_snippetRegex])

function generic_loop :: "int \<Rightarrow> string \<Rightarrow> link list \<Rightarrow> link list" where
  "generic_loop limit s links =
     (case exec genericLinkRegex s of
        None \<Rightarrow> links
      | Some m \<Rightarrow>
          if int (length links) < limit * 2 then
            if \<not> includes_str (capture m 1) ''duckduckgo.com''
               \<and> \<not> includes_str (capture m 1) ''javascript:''
            then generic_loop limit (after m)
                   (links @ [\<lparr>link_url = capture m 1,
                               link_title = replace_all tagRegex [] (trim (capture m 2))\<rparr>])
            else generic_loop limit (after m) links
          else links)"
  by pat_completeness auto
termination
  by (relation "measure (\<lambda>(limit, s, links). length s)")
     (auto dest: exec_consuming [OF consuming_genericLinkRegex])

declare modern_loop.simps [simp del] snippet_loop.simps [simp del] generic_loop.simps [simp del]

text \<open>
  The body of the combining loop at index \<open>i\<close>, which the loop condition keeps below
  \<^verbatim>\<open>links.length\<close>: \<^verbatim>\<open>snippets[i] || snippets[i - 1] || ''\<close>, and the URL cut at its
  first \<^verbatim>\<open>&\<close> and then at its first \<^verbatim>\<open>?\<close>.
\<close>

definition combine_result :: "link list \<Rightarrow> string list \<Rightarrow> nat \<Rightarrow> search_result" where
  "combine_result links snippets i =
     \<lparr>title = or_else (Some (link_title (links ! i))) (''Result '' @ show_nat (i + 1)),
      url = first_part (split (first_part (split (link_url (links ! i)) ''&'')) ''?''),
      snippet = take 300 (or_else (at_index snippets (int i))
                            (or_else (at_index snippets (int i - 1)) [])),
      rank = i + 1\<rparr>"

function combine_loop ::
  "int \<Rightarrow> link list \<Rightarrow> string list \<Rightarrow> nat \<Rightarrow> search_result list \<Rightarrow> search_result list" where
  "combine_loop limit links snippets i results =
     (if int i < min (int (length links)) limit
      then combine_loop limit links snippets (i + 1) (results @ [combine_result links snippets i])
      else results)"
  by pat_completeness auto
termination
  by (relation "measure (\<lambda>(limit, links, snippets, i, results). length links - i)") auto

declare combine_loop.simps [simp del]

text \<open>
  The \<^verbatim>\<open>try\<close> block on the page text \<open>s\<close>: the primary strategy, the snippets, the fallback
  strategy when the primary one has found no link, and the combining loop.
\<close>

definition final_links :: "string \<Rightarrow> int \<Rightarrow> link list" where
  "final_links s limit =
     (let links = modern_loop limit s []
      in if length links = 0 then generic_loop limit s links else links)"

definition extract_results :: "string \<Rightarrow> int \<Rightarrow> search_result list" where
  "extract_results s limit =
     combine_loop limit (final_links s limit) (snippet_loop limit s []) 0 []"

text \<open>
  The \<^verbatim>\<open>try\<close> block on any argument: the first \<^verbatim>\<open>exec\<close> converts \<^verbatim>\<open>html\<close> to a string,
  and throws when that fails, before anything is pushed to \<^verbatim>\<open>results\<close>. The pair is
  \<^verbatim>\<open>results\<close> at the end of the block and the exception that ended it, if any.
\<close>

definition parse_try :: "jsval \<Rightarrow> int \<Rightarrow> search_result list \<times> js_error option" where
  "parse_try html limit =
     (case toString html of
        Inl e \<Rightarrow> ([], Some e)
      | Inr s \<Rightarrow> (extract_results s limit, None))"

section \<open>The environment: network, credential, clock and console\<close>

text \<open>
  \<^verbatim>\<open>fetch\<close>, \<^verbatim>\<open>process.env\<close>, \<^verbatim>\<open>Date\<close> and \<^verbatim>\<open>console\<close> are outside the module. A
  \<open>world\<close> answers one call of \<^verbatim>\<open>searchWeb\<close> or of \<^verbatim>\<open>fetchWebPage\<close>: \<open>fetch\<close> gives, for
  a request, a rejection or a response; a response has its \<^verbatim>\<open>ok\<close> flag and status text, and
  the outcome of reading its body as text and as JSON. \<open>req_body\<close> is the value handed to
  \<^verbatim>\<open>JSON.stringify\<close>, \<open>req_timeout\<close> the milliseconds of \<^verbatim>\<open>AbortSignal.timeout\<close>.
\<close>

record request =
  req_url :: string
  req_method :: string
  req_headers :: "(string \<times> string) list"
  req_body :: "jsval option"
  req_timeout :: "nat option"

record response =
  ok :: bool
  statusText :: string
  body_text :: "js_error + string"
  body_json :: "js_error + jsval"

record world =
  PERPLEXITY_API_KEY :: "string option"
  fetch :: "request \<Rightarrow> js_error + response"
  now :: string

text \<open>What a call does to the outside, in order: the requests it sends and what it logs.\<close>

datatype effect =
    Fetch request
  | Console_warn string string
  | Console_error string js_error

text \<open>
  A computation yields its effects and then either throws (\<open>Inl\<close>, for an \<^verbatim>\<open>async\<close>
  function a rejected promise) or returns. \<open>bnd\<close> sequences two steps, \<open>try_catch\<close> is
  \<^verbatim>\<open>try { ... } catch (error) { ... }\<close>, \<open>await\<close> takes the outcome of a settled promise
  and \<open>evaluate\<close> that of an expression, neither with an effect of its own.
\<close>

type_synonym 'a comp = "effect list \<times> (js_error + 'a)"

definition ret :: "'a \<Rightarrow> 'a comp" where
  "ret x = ([], Inr x)"

definition throw :: "js_error \<Rightarrow> 'a comp" where
  "throw e = ([], Inl e)"

definition await :: "js_error + 'a \<Rightarrow> 'a comp" where
  "await r = ([], r)"

definition evaluate :: "js_error + 'a \<Rightarrow> 'a comp" where
  "evaluate r = ([], r)"

definition emit :: "effect \<Rightarrow> unit comp" where
  "emit ef = ([ef], Inr ())"

definition bnd :: "'a comp \<Rightarrow> ('a \<Rightarrow> 'b comp) \<Rightarrow> 'b comp" where
  "bnd m f =
     (case m of
        (t, Inl e) \<Rightarrow> (t, Inl e)
      | (t, Inr x) \<Rightarrow> (case f x of (t', r) \<Rightarrow> (t @ t', r)))"

definition try_catch :: "'a comp \<Rightarrow> (js_error \<Rightarrow> 'a comp) \<Rightarrow> 'a comp" where
  "try_catch m h =
     (case m of
        (t, Inl e) \<Rightarrow> (case h e of (t', r) \<Rightarrow> (t @ t', r))
      | (t, Inr x) \<Rightarrow> (t, Inr x))"

definition do_fetch :: "world \<Rightarrow> request \<Rightarrow> response comp" where
  "do_fetch w req = ([Fetch req], fetch w req)"

text \<open>
  \<^verbatim>\<open>parseDuckDuckGoResults\<close>: the \<^verbatim>\<open>catch\<close> logs the exception, and \<^verbatim>\<open>results\<close> is returned
  either way.
\<close>

definition parseDuckDuckGoResults :: "jsval \<Rightarrow> int \<Rightarrow> effect list \<times> search_result list" where
  "parseDuckDuckGoResults html limit =
     (case parse_try html limit of
        (results, Some e) \<Rightarrow> ([Console_error ''Error parsing search results:'' e], results)
      | (results, None) \<Rightarrow> ([], results))"

subsection \<open>The statements of parseDuckDuckGoResults and their exceptions\<close>

text \<open>
  \<open>parse_try\<close> has one exception, that of the conversion of \<^verbatim>\<open>html\<close> to a string. Here
  the \<^verbatim>\<open>try\<close> block is written statement by statement, with \<^verbatim>\<open>results\<close> as the
  variable that the statements update, and with every exception that a statement can
  raise:

  \<^item> the conversion of \<^verbatim>\<open>html\<close> to a string, in the first \<^verbatim>\<open>exec\<close>;

  \<^item> a run of a regular expression, in \<^verbatim>\<open>exec\<close> and in \<^verbatim>\<open>replace\<close>, which the engine
    ends with an exception of its own when it runs out of resources: a \<^verbatim>\<open>RangeError\<close>
    when its stack is full;

  \<^item> the read of \<^verbatim>\<open>link.url\<close>, a \<^verbatim>\<open>TypeError\<close> when \<^verbatim>\<open>links[i]\<close> is \<^verbatim>\<open>undefined\<close>.

  The engine is a parameter, as the network is: \<open>eng r s\<close> is the exception, if any, that
  ends the run of the expression \<open>r\<close> on the input \<open>s\<close>; a run that is not ended so gives
  what \<open>exec\<close> and \<open>replace_all\<close> give. \<open>unfailing\<close> is the engine that completes every
  run.
\<close>

type_synonym engine = "re \<Rightarrow> string \<Rightarrow> js_error option"

definition unfailing :: engine where
  "unfailing r s = None"

definition replace_in :: "engine \<Rightarrow> re \<Rightarrow> string \<Rightarrow> string \<Rightarrow> js_error + string" where
  "replace_in eng r rep s =
     (case eng r s of
        Some e \<Rightarrow> Inl e
      | None \<Rightarrow> Inr (replace_all r rep s))"

text \<open>
  The three scanning loops; \<open>s\<close> is the page from \<^verbatim>\<open>lastIndex\<close> on. Each one returns
  what it has collected, or the exception that has ended it.
\<close>

function modern_scan :: "engine \<Rightarrow> int \<Rightarrow> string \<Rightarrow> link list \<Rightarrow> js_error + link list" where
  "modern_scan eng limit s links =
     (case eng modernRegex s of
        Some e \<Rightarrow> Inl e
      | None \<Rightarrow>
          (case exec modernRegex s of
             None \<Rightarrow> Inr links
           | Some m \<Rightarrow>
               if int (length links) < limit * 2 then
                 if \<not> includes_str (capture m 1) ''duckduckgo.com'' \<and> startsWith (capture m 1) ''http''
                 then (case replace_in eng tagRegex [] (trim (capture m 2)) of
                         Inl e \<Rightarrow> Inl e
                       | Inr t \<Rightarrow>
                           modern_scan eng limit (after m)
                             (links @ [\<lparr>link_url = capture m 1, link_title = t\<rparr>]))
                 else modern_scan eng limit (after m) links
               else Inr links))"
  by pat_completeness auto
termination
  by (relation "measure (\<lambda>(eng, limit, s, links). length s)")
     (auto dest: exec_consuming [OF consuming_modernRegex])

function snippet_scan :: "engine \<Rightarrow> int \<Rightarrow> string \<Rightarrow> string list \<Rightarrow> js_error + string list" where
  "snippet_scan eng limit s snippets =
     (case eng snippetRegex s of
        Some e \<Rightarrow> Inl e
      | None \<Rightarrow>
          (case exec snippetRegex s of
             None \<Rightarrow> Inr snippets
           | Some m \<Rightarrow>
               if int (length snippets) < limit * 2 then
                 (case replace_in eng tagRegex [] (trim (capture m 1)) of
                    Inl e \<Rightarrow> Inl e
                  | Inr t \<Rightarrow> snippet_scan eng limit (after m) (snippets @ [t]))
               else Inr snippets))"
  by pat_completeness auto
termination
  by (relation "measure (\<lambda>(eng, limit, s, snippets). length s)")
     (auto dest: exec_consuming [OF consuming_snippetRegex])

function generic_scan :: "engine \<Rightarrow> int \<Rightarrow> string \<Rightarrow> link list \<Rightarrow> js_error + link list" where
  "generic_scan eng limit s links =
     (case eng genericLinkRegex s of
        Some e \<Rightarrow> Inl e
      | None \<Rightarrow>
          (case exec genericLinkRegex s of
             None \<Rightarrow> Inr links
           | Some m \<Rightarrow>
               if int (length links) < limit * 2 then
                 if \<not> includes_str (capture m 1) ''duckduckgo.com''
                    \<and> \<not> includes_str (capture m 1) ''javascript:''
                 then (case replace_in eng tagRegex [] (trim (capture m 2)) of
                         Inl e \<Rightarrow> Inl e
                       | Inr t \<Rightarrow>
                           generic_scan eng limit (after m)
                             (links @ [\<lparr>link_url = capture m 1, link_title = t\<rparr>]))
                 else generic_scan eng limit (after m) links
               else Inr links))"
  by pat_completeness auto
termination
  by (relation "measure (\<lambda>(eng, limit, s, links). length s)")
     (auto dest: exec_consuming [OF consuming_genericLinkRegex])

declare modern_scan.simps [simp del] snippet_scan.simps [simp del] generic_scan.simps [simp del]

text \<open>
  The combining loop, from the index \<open>i\<close> and the \<^verbatim>\<open>results\<close> pushed so far: it gives
  \<^verbatim>\<open>results\<close> as they are when it ends, and how it ends. \<open>link_result\<close> is the object
  pushed for the link read at index \<open>i\<close>.
\<close>

definition link_result :: "link \<Rightarrow> string list \<Rightarrow> nat \<Rightarrow> search_result" where
  "link_result link' snippets i =
     \<lparr>title = or_else (Some (link_title link')) (''Result '' @ show_nat (i + 1)),
      url = first_part (split (first_part (split (link_url link') ''&'')) ''?''),
      snippet = take 300 (or_else (at_index snippets (int i))
                            (or_else (at_index snippets (int i - 1)) [])),
      rank = i + 1\<rparr>"

function combine_stmts ::
  "int \<Rightarrow> link list \<Rightarrow> string list \<Rightarrow> nat \<Rightarrow> search_result list
     \<Rightarrow> search_result list \<times> (js_error + unit)" where
  "combine_stmts limit links snippets i results =
     (if int i < min (int (length links)) limit
      then (case at_index links (int i) of
              None \<Rightarrow>
                (results, Inl (TypeError ''Cannot read properties of undefined (reading 'url')''))
            | Some link' \<Rightarrow>
                combine_stmts limit links snippets (i + 1)
                  (results @ [link_result link' snippets i]))
      else (results, Inr ()))"
  by pat_completeness auto
termination
  by (relation "measure (\<lambda>(limit, links, snippets, i, results). length links - i)") auto

declare combine_stmts.simps [simp del]

text \<open>
  The \<^verbatim>\<open>try\<close> block, entered with \<^verbatim>\<open>results\<close>: the first statement that raises an
  exception ends it, with \<^verbatim>\<open>results\<close> as they are then.
\<close>

definition try_block ::
  "engine \<Rightarrow> jsval \<Rightarrow> int \<Rightarrow> search_result list \<Rightarrow> search_result list \<times> (js_error + unit)" where
  "try_block eng html limit results =
     (case toString html of
        Inl e \<Rightarrow> (results, Inl e)
      | Inr s \<Rightarrow>
     (case modern_scan eng limit s [] of
        Inl e \<Rightarrow> (results, Inl e)
      | Inr links \<Rightarrow>
     (case snippet_scan eng limit s [] of
        Inl e \<Rightarrow> (results, Inl e)
      | Inr snippets \<Rightarrow>
     (case (if length links = 0 then generic_scan eng limit s links else Inr links) of
        Inl e \<Rightarrow> (results, Inl e)
      | Inr links' \<Rightarrow> combine_stmts limit links' snippets 0 results))))"

text \<open>
  The function on the engine \<open>eng\<close>: \<^verbatim>\<open>results\<close> starts empty, the \<^verbatim>\<open>catch\<close> logs the
  exception of the \<^verbatim>\<open>try\<close> block, and the \<^verbatim>\<open>return\<close> follows.
\<close>

definition parseDuckDuckGoResults_in :: "engine \<Rightarrow> jsval \<Rightarrow> int \<Rightarrow> search_result list comp" where
  "parseDuckDuckGoResults_in eng html limit =
     (case try_block eng html limit [] of
        (results, outcome) \<Rightarrow>
          bnd (try_catch (evaluate outcome)
                 (\<lambda>error'. emit (Console_error ''Error parsing search results:'' error')))
            (\<lambda>u. ret results))"

section \<open>searchWeb\<close>

text \<open>
  The \<^verbatim>\<open>options\<close> argument: a property that is not given is \<open>None\<close>, and the
  destructuring patterns \<^verbatim>\<open>{ limit = 10 }\<close> and \<^verbatim>\<open>{ fetchCount = 3 }\<close> supply the defaults.
\<close>

record options =
  opt_limit :: "int option"
  opt_region :: "string option"
  opt_fetchCount :: "int option"

definition limit_of :: "options \<Rightarrow> int" where
  "limit_of opts = (case opt_limit opts of None \<Rightarrow> 10 | Some l \<Rightarrow> l)"

definition fetchCount_of :: "options \<Rightarrow> int" where
  "fetchCount_of opts = (case opt_fetchCount opts of None \<Rightarrow> 3 | Some n \<Rightarrow> n)"

text \<open>The object \<^verbatim>\<open>{ limit }\<close> that \<^verbatim>\<open>searchWeb\<close> and \<^verbatim>\<open>searchAndFetch\<close> pass on.\<close>

definition only_limit :: "int \<Rightarrow> options" where
  "only_limit l = \<lparr>opt_limit = Some l, opt_region = None, opt_fetchCount = None\<rparr>"

record envelope =
  query :: string
  results :: "search_result list"
  total :: nat
  error :: "string option"
  timestamp :: string
  source :: string

text \<open>
  \<^verbatim>\<open>encodeURIComponent\<close>: every code unit but the unreserved ones is written as the
  percent-escaped bytes of its UTF-8 encoding, two bytes from 128 on. It throws on an
  unpaired surrogate only, which is not among the code units below 256.
\<close>

definition uri_unreserved :: "char \<Rightarrow> bool" where
  "uri_unreserved x =
     (x \<in> set (''ABCDEFGHIJKLMNOPQRSTUVWXYZabcdefghijklmnopqrstuvwxyz0123456789-_.!~*()''
               @ [CHR 0x27]))"

definition percent :: "nat \<Rightarrow> string" where
  "percent b = [CHR ''%'', digit_char (b div 16), digit_char (b mod 16)]"

definition encodeURIComponent :: "string \<Rightarrow> string" where
  "encodeURIComponent s =
     concat (map (\<lambda>x. if uri_unreserved x then [x]
                       else if (of_char x :: nat) < 128 then percent (of_char x)
                       else percent (192 + of_char x div 64) @ percent (128 + of_char x mod 64)) s)"

text \<open>
  Reading \<^verbatim>\<open>data.choices[0]?.message?.content || ''\<close> off the decoded body. A member of
  \<^verbatim>\<open>undefined\<close> or \<^verbatim>\<open>null\<close> throws; \<^verbatim>\<open>?.\<close> gives \<^verbatim>\<open>undefined\<close> there instead. The
  names read here are \<^verbatim>\<open>choices\<close>, \<^verbatim>\<open>message\<close> and \<^verbatim>\<open>content\<close>, which only an object
  can have; of duplicate keys of an object the last one counts.
\<close>

datatype member = Name string | Index nat

fun member_name :: "member \<Rightarrow> string" where
  "member_name (Name n) = n"
| "member_name (Index i) = show_nat i"

definition reading :: "member \<Rightarrow> string" where
  "reading k = '' (reading '' @ [CHR 0x27] @ member_name k @ [CHR 0x27] @ '')''"

fun get_member :: "jsval \<Rightarrow> member \<Rightarrow> js_error + jsval" where
  "get_member JUndefined k = Inl (TypeError (''Cannot read properties of undefined'' @ reading k))"
| "get_member JNull k = Inl (TypeError (''Cannot read properties of null'' @ reading k))"
| "get_member (JObject kvs) (Name n) =
     Inr (case map_of (rev kvs) n of Some v \<Rightarrow> v | None \<Rightarrow> JUndefined)"
| "get_member (JObject kvs) (Index i) =
     Inr (case map_of (rev kvs) (show_nat i) of Some v \<Rightarrow> v | None \<Rightarrow> JUndefined)"
| "get_member (JArray xs) (Index i) = Inr (if i < length xs then xs ! i else JUndefined)"
| "get_member (JString s) (Index i) = Inr (if i < length s then JString [s ! i] else JUndefined)"
| "get_member v k = Inr JUndefined"

definition nullish :: "jsval \<Rightarrow> bool" where
  "nullish v = (v = JUndefined \<or> v = JNull)"

definition falsy :: "jsval \<Rightarrow> bool" where
  "falsy v = (v \<in> set [JUndefined, JNull, JBool False, JNumber 0, JString []])"

definition optional_member :: "jsval \<Rightarrow> member \<Rightarrow> jsval" where
  "optional_member v k =
     (if nullish v then JUndefined
      else (case get_member v k of Inr x \<Rightarrow> x | Inl e \<Rightarrow> JUndefined))"

definition message_content :: "jsval \<Rightarrow> js_error + jsval" where
  "message_content data =
     (case get_member data (Name ''choices'') of
        Inl e \<Rightarrow> Inl e
      | Inr choices \<Rightarrow>
          (case get_member choices (Index 0) of
             Inl e \<Rightarrow> Inl e
           | Inr first \<Rightarrow>
               Inr (if falsy (optional_member (optional_member first (Name ''message''))
                                (Name ''content''))
                    then JString []
                    else optional_member (optional_member first (Name ''message''))
                           (Name ''content''))))"

subsection \<open>searchWithPerplexity\<close>

definition perplexity_request :: "string \<Rightarrow> string \<Rightarrow> int \<Rightarrow> request" where
  "perplexity_request apiKey q limit =
     \<lparr>req_url = ''https://api.perplexity.ai/chat/completions'',
      req_method = ''POST'',
      req_headers = [(''Authorization'', ''Bearer '' @ apiKey),
                     (''Content-Type'', ''application/json'')],
      req_body = Some (JObject
        [(''model'', JString ''llama-3.1-sonar-small-128k-online''),
         (''messages'', JArray
            [JObject [(''role'', JString ''system''),
                      (''content'', JString ''You are a helpful assistant that provides web search results in a structured format.'')],
             JObject [(''role'', JString ''user''),
                      (''content'', JString (''Search the web for: '' @ q @ ''. Provide ''
                          @ show_int limit @ '' results with titles, URLs, and snippets.''))]]),
         (''max_tokens'', JNumber 2000)]),
      req_timeout = None\<rparr>"

definition searchWithPerplexity :: "world \<Rightarrow> string \<Rightarrow> options \<Rightarrow> envelope comp" where
  "searchWithPerplexity w q opts =
     (case PERPLEXITY_API_KEY w of
        None \<Rightarrow> throw (Error ''PERPLEXITY_API_KEY not set'')
      | Some [] \<Rightarrow> throw (Error ''PERPLEXITY_API_KEY not set'')
      | Some (k # ks) \<Rightarrow>
          bnd (do_fetch w (perplexity_request (k # ks) q (limit_of opts)))
            (\<lambda>response.
               if \<not> ok response then
                 bnd (await (body_text response))
                   (\<lambda>errorText. throw (Error (''Perplexity API error: '' @ statusText response
                                                 @ '' - '' @ errorText)))
               else
                 bnd (await (body_json response))
                   (\<lambda>data. bnd (evaluate (message_content data))
                      (\<lambda>content.
                         bnd (evaluate (parsePerplexityResults content (limit_of opts)))
                           (\<lambda>results'.
                              ret \<lparr>query = q, results = results', total = length results',
                                    error = None, timestamp = now w,
                                    source = ''perplexity''\<rparr>)))))"

subsection \<open>searchWeb\<close>

definition duckduckgo_request :: "string \<Rightarrow> request" where
  "duckduckgo_request q =
     \<lparr>req_url = ''https://html.duckduckgo.com/html/?q='' @ encodeURIComponent q,
      req_method = ''GET'',
      req_headers =
        [(''User-Agent'', ''Mozilla/5.0 (Windows NT 10.0; Win64; x64) AppleWebKit/537.36 (KHTML, like Gecko) Chrome/120.0.0.0 Safari/537.36''),
         (''Accept'', ''text/html,application/xhtml+xml,application/xml;q=0.9,*/*;q=0.8''),
         (''Accept-Language'', ''en-US,en;q=0.5'')],
      req_body = None,
      req_timeout = None\<rparr>"

text \<open>
  The first \<^verbatim>\<open>if\<close>: with a non-empty credential the API adapter is tried, and its result
  is returned (\<open>Some\<close>); its exception is logged and control falls through (\<open>None\<close>).
\<close>

definition try_perplexity :: "world \<Rightarrow> string \<Rightarrow> int \<Rightarrow> envelope option comp" where
  "try_perplexity w q limit =
     (case PERPLEXITY_API_KEY w of
        None \<Rightarrow> ret None
      | Some [] \<Rightarrow> ret None
      | Some (k # ks) \<Rightarrow>
          try_catch
            (bnd (searchWithPerplexity w q (only_limit limit)) (\<lambda>env. ret (Some env)))
            (\<lambda>error'. bnd (emit (Console_warn
                                   ''Perplexity search failed, falling back to DuckDuckGo:''
                                   (message error')))
                         (\<lambda>u. ret None)))"

text \<open>The second \<^verbatim>\<open>try\<close>: the markup adapter, and the envelope of its \<^verbatim>\<open>catch\<close>.\<close>

definition search_duckduckgo :: "world \<Rightarrow> string \<Rightarrow> int \<Rightarrow> envelope comp" where
  "search_duckduckgo w q limit =
     try_catch
       (bnd (do_fetch w (duckduckgo_request q))
          (\<lambda>response.
             if \<not> ok response then throw (Error (''Search failed: '' @ statusText response))
             else
               bnd (await (body_text response))
                 (\<lambda>html.
                    bnd (case parseDuckDuckGoResults (JString html) limit of
                           (t, results') \<Rightarrow> (t, Inr results'))
                      (\<lambda>results'.
                         ret \<lparr>query = q, results = results', total = length results',
                               error = None, timestamp = now w, source = ''duckduckgo''\<rparr>))))
       (\<lambda>error'.
          bnd (emit (Console_error ''Web search error:'' error'))
            (\<lambda>u. ret \<lparr>query = q, results = [], total = 0, error = Some (message error'),
                        timestamp = now w, source = ''none''\<rparr>))"

definition searchWeb :: "world \<Rightarrow> string \<Rightarrow> options \<Rightarrow> envelope comp" where
  "searchWeb w q opts =
     bnd (try_perplexity w q (limit_of opts))
       (\<lambda>returned.
          case returned of
            Some env \<Rightarrow> ret env
          | None \<Rightarrow> search_duckduckgo w q (limit_of opts))"

section \<open>searchWebMultiple\<close>

text \<open>
  The calls of \<^verbatim>\<open>searchWeb\<close> run concurrently. Each call has a world of its own,
  \<open>query_world mw i\<close> for the query at index \<open>i\<close>, so that what a call meets does not
  depend on how the calls interleave. \<^verbatim>\<open>Promise.all\<close> keeps the order of its argument
  and rejects when one of the promises does; the effects of the calls are listed call
  after call.
\<close>

record multi_world =
  query_world :: "nat \<Rightarrow> world"
  join_world :: world

record multi_envelope =
  queries :: "string list"
  m_results :: "envelope list"
  totalResults :: nat
  m_timestamp :: string

fun promise_all :: "'a comp list \<Rightarrow> 'a list comp" where
  "promise_all [] = ([], Inr [])"
| "promise_all ((t, r) # ms) =
     (case promise_all ms of
        (ts, rs) \<Rightarrow>
          (t @ ts,
           case r of
             Inl e \<Rightarrow> Inl e
           | Inr x \<Rightarrow> (case rs of Inl e' \<Rightarrow> Inl e' | Inr xs \<Rightarrow> Inr (x # xs))))"

text \<open>\<^verbatim>\<open>queries.map(query => searchWeb(query, options))\<close>, from index \<open>i\<close> on.\<close>

fun search_each :: "multi_world \<Rightarrow> options \<Rightarrow> nat \<Rightarrow> string list \<Rightarrow> envelope comp list" where
  "search_each mw opts i [] = []"
| "search_each mw opts i (q # qs) =
     searchWeb (query_world mw i) q opts # search_each mw opts (i + 1) qs"

definition searchWebMultiple :: "multi_world \<Rightarrow> string list \<Rightarrow> options \<Rightarrow> multi_envelope comp" where
  "searchWebMultiple mw qs opts =
     bnd (promise_all (search_each mw opts 0 qs))
       (\<lambda>results'.
          ret \<lparr>queries = qs, m_results = results',
                totalResults = foldl (\<lambda>sum r. sum + total r) 0 results',
                m_timestamp = now (join_world mw)\<rparr>)"

section \<open>searchAndFetch\<close>

record enriched_result = search_result +
  content :: "string option"
  fetchError :: "string option"

record enrichment_envelope =
  e_query :: string
  searchResults :: "search_result list"
  fetchedContent :: "enriched_result list"
  e_timestamp :: string

text \<open>
  The search has the world \<open>search_world fw\<close>, the fetch of the page of the result at
  index \<open>i\<close> the world \<open>page_world fw i\<close>; the fetches run one after the other.
\<close>

record fetch_world =
  search_world :: world
  page_world :: "nat \<Rightarrow> world"
  final_world :: world

subsection \<open>fetchWebPage\<close>

definition page_request :: "string \<Rightarrow> request" where
  "page_request u =
     \<lparr>req_url = u,
      req_method = ''GET'',
      req_headers =
        [(''User-Agent'', ''Mozilla/5.0 (Windows NT 10.0; Win64; x64) AppleWebKit/537.36'')],
      req_body = None,
      req_timeout = Some 10000\<rparr>"

definition extract_text :: "string \<Rightarrow> string" where
  "extract_text html =
     trim (replace_all spacesRegex '' ''
            (replace_all tagRegex '' ''
              (replace_all styleRegex []
                (replace_all scriptRegex [] html))))"

definition fetchWebPage :: "world \<Rightarrow> string \<Rightarrow> string comp" where
  "fetchWebPage w u =
     try_catch
       (bnd (do_fetch w (page_request u))
          (\<lambda>response.
             if \<not> ok response then throw (Error (''Failed to fetch: '' @ statusText response))
             else bnd (await (body_text response))
                    (\<lambda>html. ret (take 10000 (extract_text html)))))
       (\<lambda>error'. throw (Error (''Failed to fetch '' @ u @ '': '' @ message error')))"

subsection \<open>searchAndFetch\<close>

text \<open>
  \<^verbatim>\<open>xs.slice(0, n)\<close>: a negative \<open>n\<close> counts from the end. \<open>enrich\<close> is the object
  \<^verbatim>\<open>{...result, content, fetchError}\<close>, with \<open>None\<close> for the \<^verbatim>\<open>null\<close> content and for the
  missing \<^verbatim>\<open>fetchError\<close>.
\<close>

definition slice_to :: "'a list \<Rightarrow> int \<Rightarrow> 'a list" where
  "slice_to xs n = (if 0 \<le> n then take (nat n) xs else take (nat (int (length xs) + n)) xs)"

definition enrich :: "search_result \<Rightarrow> string option \<Rightarrow> string option \<Rightarrow> enriched_result" where
  "enrich r c e =
     \<lparr>title = title r, url = url r, snippet = snippet r, rank = rank r,
      content = c, fetchError = e\<rparr>"

text \<open>The \<^verbatim>\<open>for ... of\<close> loop over the sliced results; \<open>i\<close> counts the results done.\<close>

fun fetch_loop ::
  "fetch_world \<Rightarrow> nat \<Rightarrow> search_result list \<Rightarrow> enriched_result list \<Rightarrow> enriched_result list comp" where
  "fetch_loop fw i [] fetched = ret fetched"
| "fetch_loop fw i (r # rs) fetched =
     bnd (try_catch
            (bnd (fetchWebPage (page_world fw i) (url r))
               (\<lambda>content'. ret (fetched @ [enrich r (Some (take 5000 content')) None])))
            (\<lambda>error'. ret (fetched @ [enrich r None (Some (message error'))])))
       (\<lambda>fetched'. fetch_loop fw (i + 1) rs fetched')"

text \<open>
  The element that an iteration of the loop adds for the result \<open>r\<close> at index \<open>i\<close>:
  the page text, or the message of the exception of \<^verbatim>\<open>fetchWebPage\<close>.
\<close>

definition fetched_item :: "fetch_world \<Rightarrow> nat \<Rightarrow> search_result \<Rightarrow> enriched_result" where
  "fetched_item fw i r =
     (case snd (fetchWebPage (page_world fw i) (url r)) of
        Inl e \<Rightarrow> enrich r None (Some (message e))
      | Inr c \<Rightarrow> enrich r (Some (take 5000 c)) None)"

definition searchAndFetch :: "fetch_world \<Rightarrow> string \<Rightarrow> options \<Rightarrow> enrichment_envelope comp" where
  "searchAndFetch fw q opts =
     bnd (searchWeb (search_world fw) q (only_limit (fetchCount_of opts)))
       (\<lambda>found.
          bnd (fetch_loop fw 0 (slice_to (results found) (fetchCount_of opts)) [])
            (\<lambda>fetched.
               ret \<lparr>e_query = q, searchResults = results found, fetchedContent = fetched,
                     e_timestamp = now (final_world fw)\<rparr>))"

section \<open>Example inputs\<close>

text \<open>
  Pages, options and worlds on which the properties below are instantiated. The pages: one
  with two result links, one whose only snippet has 301 code units, one with three plain
  anchors, and the page that a result links to.
\<close>

definition two_links_page :: string where
  \<open>two_links_page =
     ''<a class="result__a" href="http://x.com/a?b=1">T1</a><a class="result__a" href="http://y.com/">T2</a>''\<close>

definition long_snippet_page :: string where
  \<open>long_snippet_page =
     ''<a class="result__a" href="http://x.com/">T</a><a class="result__snippet">''
     @ replicate 301 (CHR ''s'') @ ''</a>''\<close>

definition plain_page :: string where
  \<open>plain_page =
     ''<a href="https://e.org/p?x=1">E</a><a href="http://f.org/">F</a><a href="http://g.org/">G</a>''\<close>

definition hello_page :: string where
  "hello_page = ''<p>Hello <b>world</b></p>''"

text \<open>The options: none given, and \<^verbatim>\<open>{ fetchCount: 2 }\<close>.\<close>

definition no_options :: options where
  "no_options = \<lparr>opt_limit = None, opt_region = None, opt_fetchCount = None\<rparr>"

definition fetch_two :: options where
  "fetch_two = \<lparr>opt_limit = None, opt_region = None, opt_fetchCount = Some 2\<rparr>"

text \<open>
  The worlds of a call: \<open>serving page\<close> has no credential and answers every request with
  the page; \<open>api_down page\<close> has a credential, cannot reach the API and answers every
  other request with the page; in \<open>offline\<close> no request gets through; in \<open>timing_out\<close>
  every request is aborted by its timeout.
\<close>

definition page_response :: "string \<Rightarrow> response" where
  "page_response page =
     \<lparr>ok = True, statusText = ''OK'', body_text = Inr page,
      body_json = Inl (Error ''Unexpected token < in JSON at position 0'')\<rparr>"

definition serving :: "string \<Rightarrow> world" where
  "serving page =
     \<lparr>PERPLEXITY_API_KEY = None,
      fetch = (\<lambda>req. Inr (page_response page)),
      now = ''2025-11-01T00:00:00.000Z''\<rparr>"

definition api_down :: "string \<Rightarrow> world" where
  "api_down page =
     \<lparr>PERPLEXITY_API_KEY = Some ''key'',
      fetch = (\<lambda>req. if req_url req = ''https://api.perplexity.ai/chat/completions''
                      then Inl (TypeError ''fetch failed'')
                      else Inr (page_response page)),
      now = ''2025-11-01T00:00:00.000Z''\<rparr>"

definition offline :: world where
  "offline =
     \<lparr>PERPLEXITY_API_KEY = None,
      fetch = (\<lambda>req. Inl (TypeError ''fetch failed'')),
      now = ''2025-11-01T00:00:00.000Z''\<rparr>"

definition timing_out :: world where
  "timing_out =
     \<lparr>PERPLEXITY_API_KEY = None,
      fetch = (\<lambda>req. Inl (Error ''The operation was aborted due to timeout'')),
      now = ''2025-11-01T00:00:00.000Z''\<rparr>"

text \<open>
  Two concurrent calls, where no request of the first gets through and the second finds the
  page with two links; and a search that finds this page, followed by a fetch that times
  out and one that reads a page.
\<close>

definition two_calls :: multi_world where
  "two_calls =
     \<lparr>query_world = (\<lambda>i. if i = 0 then offline else serving two_links_page),
      join_world = offline\<rparr>"

definition two_fetches :: fetch_world where
  "two_fetches =
     \<lparr>search_world = serving two_links_page,
      page_world = (\<lambda>i. if i = 0 then timing_out else serving hello_page),
      final_world = offline\<rparr>"

text \<open>
  An engine that gives up on one input, and the input on which it does below: what is
  left of the page with two links after the first of them.
\<close>

definition giving_up_on :: "string \<Rightarrow> engine" where
  "giving_up_on x r s =
     (if s = x then Some (RangeError ''Maximum call stack size exceeded'') else None)"

definition second_anchor :: string where
  \<open>second_anchor = ''<a class="result__a" href="http://y.com/">T2</a>''\<close>

section \<open>Properties of the HTML result extractor\<close>

lemma combine_loop_eq:
  "combine_loop limit links snippets i acc =
     acc @ map (combine_result links snippets) [i..<nat (min (int (length links)) limit)]"
proof (induction limit links snippets i acc rule: combine_loop.induct)
  case (1 limit links snippets i acc)
  show ?case
  proof (cases "int i < min (int (length links)) limit")
    case True
    then have "i < nat (min (int (length links)) limit)" by linarith
    then have upt: "[i..<nat (min (int (length links)) limit)]
                      = i # [i + 1..<nat (min (int (length links)) limit)]"
      by (simp add: upt_conv_Cons)
    have "combine_loop limit links snippets i acc
            = combine_loop limit links snippets (i + 1) (acc @ [combine_result links snippets i])"
      by (subst combine_loop.simps) (simp only: True if_True)
    also have "\<dots> = (acc @ [combine_result links snippets i])
                 @ map (combine_result links snippets) [i + 1..<nat (min (int (length links)) limit)]"
      by (rule "1.IH" [OF True])
    finally show ?thesis by (simp only: upt list.map append_Cons append_Nil append_assoc)
  next
    case False
    then have "nat (min (int (length links)) limit) \<le> i" by linarith
    then have upt: "[i..<nat (min (int (length links)) limit)] = []" by simp
    have "combine_loop limit links snippets i acc = acc"
      by (subst combine_loop.simps) (simp only: False if_False)
    then show ?thesis by (simp only: upt list.map append_Nil2)
  qed
qed

lemma extract_results_eq:
  "extract_results s limit =
     map (combine_result (final_links s limit) (snippet_loop limit s []))
       [0..<nat (min (int (length (final_links s limit))) limit)]"
  by (simp add: extract_results_def combine_loop_eq)

lemma parse_results:
  "snd (parseDuckDuckGoResults html limit) =
     (case toString html of Inl e \<Rightarrow> [] | Inr s \<Rightarrow> extract_results s limit)"
  by (simp add: parseDuckDuckGoResults_def parse_try_def split: sum.splits)

lemma length_extract_results:
  "length (extract_results s limit) = nat (min (int (length (final_links s limit))) limit)"
  by (simp add: extract_results_eq)

lemma rank_extract_results:
  "map rank (extract_results s limit) = [1..<Suc (length (extract_results s limit))]"
proof -
  have "map rank (extract_results s limit)
          = map Suc [0..<nat (min (int (length (final_links s limit))) limit)]"
    by (simp add: extract_results_eq combine_result_def)
  also have "\<dots> = [1..<Suc (nat (min (int (length (final_links s limit))) limit))]"
    by (simp only: map_Suc_upt One_nat_def)
  finally show ?thesis by (simp only: length_extract_results)
qed

text \<open>
  C1. For every \<^verbatim>\<open>html\<close> argument, a string in particular, and every limit \<open>L \<ge> 1\<close>,
  \<^verbatim>\<open>parseDuckDuckGoResults\<close> returns at most \<open>L\<close> results, and their ranks are
  \<open>1, 2, ..., length\<close> in this order.
\<close>

theorem parseDuckDuckGoResults_length_rank:
  assumes "1 \<le> L"
  shows "length (snd (parseDuckDuckGoResults html L)) \<le> nat L
         \<and> map rank (snd (parseDuckDuckGoResults html L))
             = [1..<Suc (length (snd (parseDuckDuckGoResults html L)))]"
proof (cases "toString html")
  case (Inl e)
  then show ?thesis by (simp add: parse_results)
next
  case (Inr s)
  then have "snd (parseDuckDuckGoResults html L) = extract_results s L"
    by (simp add: parse_results)
  moreover have "length (extract_results s L) \<le> nat L"
    using assms by (simp add: length_extract_results)
  ultimately show ?thesis
    using rank_extract_results [of s L] by simp
qed

text \<open>On the page with two links and the limit 1, one result comes back, of rank 1.\<close>

lemma two_links_page_results:
  "parseDuckDuckGoResults (JString two_links_page) 1
     = ([], [\<lparr>title = ''T1'', url = ''http://x.com/a'', snippet = [], rank = 1\<rparr>])"
  by code_simp

theorem parseDuckDuckGoResults_length_rank_witness:
  "(1 :: int) \<le> 1
   \<and> snd (parseDuckDuckGoResults (JString two_links_page) 1)
       = [\<lparr>title = ''T1'', url = ''http://x.com/a'', snippet = [], rank = 1\<rparr>]
   \<and> length (snd (parseDuckDuckGoResults (JString two_links_page) 1)) \<le> nat 1
   \<and> map rank (snd (parseDuckDuckGoResults (JString two_links_page) 1))
       = [1..<Suc (length (snd (parseDuckDuckGoResults (JString two_links_page) 1)))]"
proof -
  have "(1 :: int) \<le> 1" by simp
  from parseDuckDuckGoResults_length_rank [OF this, of "JString two_links_page"]
  show ?thesis by (simp add: two_links_page_results)
qed

text \<open>
  C10. Every result that \<^verbatim>\<open>parseDuckDuckGoResults\<close> returns has a snippet of at most 300
  code units.
\<close>

theorem parseDuckDuckGoResults_snippet_bound:
  "\<forall>r \<in> set (snd (parseDuckDuckGoResults html L)). length (snippet r) \<le> 300"
  by (cases "toString html") (auto simp add: parse_results extract_results_eq combine_result_def)

text \<open>A page whose only snippet has 301 code units: the result keeps 300 of them.\<close>

lemma long_snippet_page_results:
  "snd (parseDuckDuckGoResults (JString long_snippet_page) 5)
     = [\<lparr>title = ''T'', url = ''http://x.com/'', snippet = replicate 300 (CHR ''s''), rank = 1\<rparr>]"
  by code_simp

theorem parseDuckDuckGoResults_snippet_bound_witness:
  "snd (parseDuckDuckGoResults (JString long_snippet_page) 5)
     = [\<lparr>title = ''T'', url = ''http://x.com/'', snippet = replicate 300 (CHR ''s''), rank = 1\<rparr>]
   \<and> length (snippet \<lparr>title = ''T'', url = ''http://x.com/'',
                        snippet = replicate 300 (CHR ''s''), rank = 1\<rparr>) \<le> 300"
  using parseDuckDuckGoResults_snippet_bound [of "JString long_snippet_page" 5]
  by (simp add: long_snippet_page_results)

lemma modern_scan_unfailing:
  "modern_scan (\<lambda>r s. None) limit s links = Inr (modern_loop limit s links)"
proof (induction limit s links rule: modern_loop.induct)
  case (1 limit s links)
  show ?case
    apply (subst modern_scan.simps)
    apply (subst modern_loop.simps)
    using 1
    apply (auto simp add: replace_in_def split: option.splits)
    done
qed

lemma snippet_scan_unfailing:
  "snippet_scan (\<lambda>r s. None) limit s snippets = Inr (snippet_loop limit s snippets)"
proof (induction limit s snippets rule: snippet_loop.induct)
  case (1 limit s snippets)
  show ?case
    apply (subst snippet_scan.simps)
    apply (subst snippet_loop.simps)
    using 1
    apply (auto simp add: replace_in_def split: option.splits)
    done
qed

lemma generic_scan_unfailing:
  "generic_scan (\<lambda>r s. None) limit s links = Inr (generic_loop limit s links)"
proof (induction limit s links rule: generic_loop.induct)
  case (1 limit s links)
  show ?case
    apply (subst generic_scan.simps)
    apply (subst generic_loop.simps)
    using 1
    apply (auto simp add: replace_in_def split: option.splits)
    done
qed

lemma link_result_nth: "link_result (links ! i) snippets i = combine_result links snippets i"
  by (simp add: link_result_def combine_result_def)

text \<open>
  The combining loop raises no exception: its condition keeps \<open>i\<close> below
  \<^verbatim>\<open>links.length\<close>, so that \<^verbatim>\<open>links[i]\<close> is a link.
\<close>

lemma combine_stmts_eq:
  "combine_stmts limit links snippets i acc = (combine_loop limit links snippets i acc, Inr ())"
proof (induction limit links snippets i acc rule: combine_stmts.induct)
  case (1 limit links snippets i acc)
  show ?case
  proof (cases "int i < min (int (length links)) limit")
    case True
    then have "i < length links" by linarith
    then have here: "at_index links (int i) = Some (links ! i)"
      by (simp add: at_index_def)
    have "combine_stmts limit links snippets i acc
            = combine_stmts limit links snippets (i + 1) (acc @ [link_result (links ! i) snippets i])"
      by (subst combine_stmts.simps) (simp only: True if_True here option.case)
    also have "\<dots> = (combine_loop limit links snippets (i + 1)
                       (acc @ [link_result (links ! i) snippets i]), Inr ())"
      by (rule "1.IH" [OF True here])
    also have "combine_loop limit links snippets (i + 1) (acc @ [link_result (links ! i) snippets i])
                 = combine_loop limit links snippets i acc"
      by (subst (2) combine_loop.simps) (simp only: True if_True link_result_nth)
    finally show ?thesis .
  next
    case False
    have "combine_stmts limit links snippets i acc = (acc, Inr ())"
      by (subst combine_stmts.simps) (simp only: False if_False)
    moreover have "combine_loop limit links snippets i acc = acc"
      by (subst combine_loop.simps) (simp only: False if_False)
    ultimately show ?thesis by simp
  qed
qed

text \<open>
  An exception of the \<^verbatim>\<open>try\<close> block is raised before the combining loop, the only
  statements that push to \<^verbatim>\<open>results\<close>.
\<close>

lemma try_block_raised:
  "try_block eng html limit acc = (rs, Inl e) \<Longrightarrow> rs = acc"
  by (auto simp add: try_block_def combine_stmts_eq split: sum.splits if_splits)

lemma parse_caught:
  "try_block eng html limit [] = (rs, Inl e) \<Longrightarrow>
     parseDuckDuckGoResults_in eng html limit
       = ([Console_error ''Error parsing search results:'' e], Inr [])"
  using try_block_raised [of eng html limit "[]" rs e]
  by (simp add: parseDuckDuckGoResults_in_def bnd_def try_catch_def evaluate_def emit_def ret_def)

lemma parse_returns: "\<exists>t rs. parseDuckDuckGoResults_in eng html limit = (t, Inr rs)"
proof -
  obtain rs r where tb: "try_block eng html limit [] = (rs, r)"
    by (cases "try_block eng html limit []")
  show ?thesis
    by (cases r)
       (simp_all add: parseDuckDuckGoResults_in_def tb bnd_def try_catch_def evaluate_def
          emit_def ret_def)
qed

lemma parse_unfailing:
  "parseDuckDuckGoResults_in unfailing html limit
     = (fst (parseDuckDuckGoResults html limit), Inr (snd (parseDuckDuckGoResults html limit)))"
  unfolding unfailing_def
  by (cases "toString html")
     (simp_all add: parseDuckDuckGoResults_in_def try_block_def parseDuckDuckGoResults_def
        parse_try_def modern_scan_unfailing snippet_scan_unfailing generic_scan_unfailing
        combine_stmts_eq extract_results_def final_links_def Let_def
        bnd_def try_catch_def evaluate_def emit_def ret_def)

text \<open>
  C3. \<^verbatim>\<open>parseDuckDuckGoResults\<close> never throws, and an exception raised while it scans
  leaves the list that it returns empty. For every engine, argument and limit: the call
  returns. When a statement of the \<^verbatim>\<open>try\<close> block raises an exception, \<^verbatim>\<open>results\<close> is
  empty then, the \<^verbatim>\<open>catch\<close> logs the exception and the call returns the empty list. On a
  page text \<open>s\<close> in particular, this is what follows an exception of the primary scan, of
  the scan for snippets, and of the fallback scan. With the engine that completes every
  run, the call logs and returns what \<open>parseDuckDuckGoResults\<close> does.
\<close>

theorem parseDuckDuckGoResults_never_throws:
  "(\<exists>t rs. parseDuckDuckGoResults_in eng html L = (t, Inr rs))
   \<and> (\<forall>rs e. try_block eng html L [] = (rs, Inl e) \<longrightarrow>
         rs = []
         \<and> parseDuckDuckGoResults_in eng html L
             = ([Console_error ''Error parsing search results:'' e], Inr []))
   \<and> (\<forall>s e. (modern_scan eng L s [] = Inl e
              \<or> (\<exists>links. modern_scan eng L s [] = Inr links \<and> snippet_scan eng L s [] = Inl e)
              \<or> (\<exists>snippets. modern_scan eng L s [] = Inr []
                    \<and> snippet_scan eng L s [] = Inr snippets
                    \<and> generic_scan eng L s [] = Inl e)) \<longrightarrow>
         parseDuckDuckGoResults_in eng (JString s) L
           = ([Console_error ''Error parsing search results:'' e], Inr []))
   \<and> parseDuckDuckGoResults_in unfailing html L
       = (fst (parseDuckDuckGoResults html L), Inr (snd (parseDuckDuckGoResults html L)))"
proof -
  have scanning: "parseDuckDuckGoResults_in eng (JString s) L
                    = ([Console_error ''Error parsing search results:'' e], Inr [])"
    if "modern_scan eng L s [] = Inl e
        \<or> (\<exists>links. modern_scan eng L s [] = Inr links \<and> snippet_scan eng L s [] = Inl e)
        \<or> (\<exists>snippets. modern_scan eng L s [] = Inr []
              \<and> snippet_scan eng L s [] = Inr snippets
              \<and> generic_scan eng L s [] = Inl e)" for s e
  proof -
    from that have "try_block eng (JString s) L [] = ([], Inl e)"
      by (auto simp add: try_block_def)
    then show ?thesis by (rule parse_caught)
  qed
  show ?thesis
    using parse_returns [of eng html L] try_block_raised [of eng html L "[]"]
      parse_caught [of eng html L] scanning parse_unfailing [of html L]
    by blast
qed

text \<open>
  The page with two links and the limit 1, on an engine that gives up on what is left of
  the page after the first link: the primary scan has collected this link when its second
  \<^verbatim>\<open>exec\<close> throws, the exception is logged and no result is returned. On the engine that
  completes every run the same call returns the first link.
\<close>

lemma two_links_page_gives_up:
  "modern_scan (giving_up_on second_anchor) 1 two_links_page []
     = Inl (RangeError ''Maximum call stack size exceeded'')"
  by code_simp

theorem parseDuckDuckGoResults_never_throws_witness:
  "modern_scan (giving_up_on second_anchor) 1 two_links_page []
     = Inl (RangeError ''Maximum call stack size exceeded'')
   \<and> parseDuckDuckGoResults_in (giving_up_on second_anchor) (JString two_links_page) 1
       = ([Console_error ''Error parsing search results:''
             (RangeError ''Maximum call stack size exceeded'')], Inr [])
   \<and> parseDuckDuckGoResults_in unfailing (JString two_links_page) 1
       = ([], Inr [\<lparr>title = ''T1'', url = ''http://x.com/a'', snippet = [], rank = 1\<rparr>])"
proof -
  from parseDuckDuckGoResults_never_throws
         [of "giving_up_on second_anchor" "JString two_links_page" 1]
    two_links_page_gives_up
  have "parseDuckDuckGoResults_in (giving_up_on second_anchor) (JString two_links_page) 1
          = ([Console_error ''Error parsing search results:''
                (RangeError ''Maximum call stack size exceeded'')], Inr [])"
    and "parseDuckDuckGoResults_in unfailing (JString two_links_page) 1
           = (fst (parseDuckDuckGoResults (JString two_links_page) 1),
              Inr (snd (parseDuckDuckGoResults (JString two_links_page) 1)))"
    by blast+
  then show ?thesis
    by (simp add: two_links_page_gives_up two_links_page_results)
qed

lemma generic_loop_cap:
  "int (length links) \<le> max 0 (limit * 2) \<Longrightarrow>
     int (length (generic_loop limit s links)) \<le> max 0 (limit * 2)"
proof (induction limit s links rule: generic_loop.induct)
  case (1 limit s links)
  show ?case
  proof (cases "exec genericLinkRegex s")
    case None
    with "1.prems" show ?thesis by (subst generic_loop.simps) simp
  next
    case (Some m)
    show ?thesis
    proof (cases "int (length links) < limit * 2")
      case False
      with Some "1.prems" show ?thesis by (subst generic_loop.simps) simp
    next
      case True
      then have room: "int (length (links @ [\<lparr>link_url = capture m 1,
                               link_title = replace_all tagRegex [] (trim (capture m 2))\<rparr>]))
                         \<le> max 0 (limit * 2)"
        by simp
      show ?thesis
      proof (cases "\<not> includes_str (capture m 1) ''duckduckgo.com''
                     \<and> \<not> includes_str (capture m 1) ''javascript:''")
        case keep: True
        from "1.IH"(1) [OF Some True keep room] Some True keep
        show ?thesis by (subst generic_loop.simps) simp
      next
        case skip: False
        from "1.IH"(2) [OF Some True skip "1.prems"] Some True skip
        show ?thesis by (subst generic_loop.simps) auto
      qed
    qed
  qed
qed

text \<open>
  C7. When the primary strategy finds no link on the page, the results are built from
  the links of the fallback strategy, started on no links: the result at index \<open>i\<close>, for
  \<open>i\<close> below the limit and the number of these links, comes from the fallback link at
  index \<open>i\<close>. The fallback strategy keeps at most \<open>2 \<times> limit\<close> links.
\<close>

theorem parseDuckDuckGoResults_fallback:
  assumes "modern_loop L s [] = []"
  shows "snd (parseDuckDuckGoResults (JString s) L)
           = map (combine_result (generic_loop L s []) (snippet_loop L s []))
               [0..<nat (min (int (length (generic_loop L s []))) L)]
         \<and> int (length (generic_loop L s [])) \<le> max 0 (L * 2)"
proof -
  from assms have "final_links s L = generic_loop L s []"
    by (simp add: final_links_def)
  then have "snd (parseDuckDuckGoResults (JString s) L)
               = map (combine_result (generic_loop L s []) (snippet_loop L s []))
                   [0..<nat (min (int (length (generic_loop L s []))) L)]"
    by (simp add: parse_results extract_results_eq)
  moreover have "int (length (generic_loop L s [])) \<le> max 0 (L * 2)"
    by (rule generic_loop_cap) simp
  ultimately show ?thesis by simp
qed

text \<open>
  A page with three plain anchors and the limit 1: the primary strategy finds nothing,
  the fallback strategy stops at two links, and the first of them is the result.
\<close>

lemma plain_page_modern: "modern_loop 1 plain_page [] = []"
  by code_simp

lemma plain_page_generic:
  "generic_loop 1 plain_page []
     = [\<lparr>link_url = ''https://e.org/p?x=1'', link_title = ''E''\<rparr>,
        \<lparr>link_url = ''http://f.org/'', link_title = ''F''\<rparr>]"
  by code_simp

lemma plain_page_results:
  "snd (parseDuckDuckGoResults (JString plain_page) 1)
     = [\<lparr>title = ''E'', url = ''https://e.org/p'', snippet = [], rank = 1\<rparr>]"
  by code_simp

theorem parseDuckDuckGoResults_fallback_witness:
  "modern_loop 1 plain_page [] = []
   \<and> generic_loop 1 plain_page []
       = [\<lparr>link_url = ''https://e.org/p?x=1'', link_title = ''E''\<rparr>,
          \<lparr>link_url = ''http://f.org/'', link_title = ''F''\<rparr>]
   \<and> snd (parseDuckDuckGoResults (JString plain_page) 1)
       = [\<lparr>title = ''E'', url = ''https://e.org/p'', snippet = [], rank = 1\<rparr>]
   \<and> snd (parseDuckDuckGoResults (JString plain_page) 1)
       = map (combine_result (generic_loop 1 plain_page []) (snippet_loop 1 plain_page []))
           [0..<nat (min (int (length (generic_loop 1 plain_page []))) 1)]
   \<and> int (length (generic_loop 1 plain_page [])) \<le> max 0 (1 * 2)"
  using parseDuckDuckGoResults_fallback [OF plain_page_modern]
    plain_page_modern plain_page_generic plain_page_results
  by blast

section \<open>Properties of the citation extractor\<close>

text \<open>
  C9. On the text of the example, with its two citations \<^verbatim>\<open>[1]\<close> and \<^verbatim>\<open>[2]\<close>, and the
  limit 10, \<^verbatim>\<open>parsePerplexityResults\<close> returns two results: rank 1 with the title
  \<^verbatim>\<open>Example Site\<close>, the URL \<^verbatim>\<open>https://example.com\<close> and the snippet \<^verbatim>\<open>more info\<close>;
  rank 2 with the title \<^verbatim>\<open>Other\<close>, the URL \<^verbatim>\<open>https://other.com\<close> and the snippet
  \<^verbatim>\<open>data\<close>.
\<close>

theorem parsePerplexityResults_example:
  "parsePerplexityResults
     (JString ''[1] Example Site https://example.com more info [2] Other https://other.com data'')
     10
   = Inr [\<lparr>title = ''Example Site'', url = ''https://example.com'', snippet = ''more info'',
            rank = 1\<rparr>,
          \<lparr>title = ''Other'', url = ''https://other.com'', snippet = ''data'', rank = 2\<rparr>]"
  by code_simp

section \<open>Properties of searchWeb\<close>

lemma snd_bnd:
  "snd (bnd m f) = (case snd m of Inl e \<Rightarrow> Inl e | Inr x \<Rightarrow> snd (f x))"
  by (cases m) (auto simp add: bnd_def split: sum.splits prod.splits)

lemma fst_bnd:
  "fst (bnd m f) = fst m @ (case snd m of Inl e \<Rightarrow> [] | Inr x \<Rightarrow> fst (f x))"
  by (cases m) (auto simp add: bnd_def split: sum.splits prod.splits)

lemma snd_try_catch:
  "snd (try_catch m h) = (case snd m of Inl e \<Rightarrow> snd (h e) | Inr x \<Rightarrow> Inr x)"
  by (cases m) (auto simp add: try_catch_def split: sum.splits prod.splits)

lemma fst_try_catch:
  "fst (try_catch m h) = fst m @ (case snd m of Inl e \<Rightarrow> fst (h e) | Inr x \<Rightarrow> [])"
  by (cases m) (auto simp add: try_catch_def split: sum.splits prod.splits)

lemmas comp_simps =
  snd_bnd fst_bnd snd_try_catch fst_try_catch ret_def throw_def await_def evaluate_def emit_def
  do_fetch_def

lemmas run_simps =
  searchWeb_def search_duckduckgo_def try_perplexity_def searchWithPerplexity_def
  bnd_def try_catch_def ret_def throw_def await_def evaluate_def emit_def do_fetch_def
  limit_of_def only_limit_def

text \<open>What the markup adapter returns: a success envelope or the envelope of its \<^verbatim>\<open>catch\<close>.\<close>

lemma search_duckduckgo_returns:
  "\<exists>env. snd (search_duckduckgo w q L) = Inr env
     \<and> query env = q \<and> total env = length (results env)
     \<and> (source env = ''duckduckgo'' \<and> error env = None
        \<or> source env = ''none'' \<and> error env \<noteq> None \<and> results env = [])"
  by (auto simp add: search_duckduckgo_def comp_simps split: sum.splits prod.splits)

lemma search_duckduckgo_fetches:
  "Fetch req \<in> set (fst (search_duckduckgo w q L)) \<Longrightarrow> req = duckduckgo_request q"
  by (auto simp add: search_duckduckgo_def comp_simps parseDuckDuckGoResults_def parse_try_def
      split: sum.splits prod.splits if_splits)

lemma search_duckduckgo_fetch:
  "Fetch (duckduckgo_request q) \<in> set (fst (search_duckduckgo w q L))"
  by (simp add: search_duckduckgo_def comp_simps)

lemma searchWithPerplexity_returns:
  "snd (searchWithPerplexity w q opts) = Inr env \<Longrightarrow>
     source env = ''perplexity'' \<and> error env = None \<and> query env = q
     \<and> total env = length (results env)"
  by (auto simp add: searchWithPerplexity_def comp_simps
      split: option.splits list.splits sum.splits if_splits)

lemma try_perplexity_returns:
  "snd (try_perplexity w q L) = Inr None
   \<or> (\<exists>env. snd (try_perplexity w q L) = Inr (Some env)
         \<and> source env = ''perplexity'' \<and> error env = None \<and> query env = q
         \<and> total env = length (results env))"
proof (cases "snd (searchWithPerplexity w q (only_limit L))")
  case (Inl e)
  then show ?thesis
    by (auto simp add: try_perplexity_def comp_simps split: option.splits list.splits)
next
  case (Inr env)
  from searchWithPerplexity_returns [OF this] Inr show ?thesis
    by (auto simp add: try_perplexity_def comp_simps split: option.splits list.splits)
qed

lemma searchWeb_returns:
  "\<exists>env. snd (searchWeb w q opts) = Inr env
     \<and> query env = q \<and> total env = length (results env)
     \<and> (source env = ''perplexity'' \<and> error env = None
        \<or> source env = ''duckduckgo'' \<and> error env = None
        \<or> source env = ''none'' \<and> error env \<noteq> None \<and> results env = [])"
proof -
  from try_perplexity_returns [of w q "limit_of opts"]
  consider (fallback) "snd (try_perplexity w q (limit_of opts)) = Inr None"
    | (api) env where "snd (try_perplexity w q (limit_of opts)) = Inr (Some env)"
        "source env = ''perplexity''" "error env = None" "query env = q"
        "total env = length (results env)"
    by blast
  then show ?thesis
  proof cases
    case fallback
    with search_duckduckgo_returns [of w q "limit_of opts"] show ?thesis
      by (auto simp add: searchWeb_def comp_simps)
  next
    case api
    then show ?thesis
      by (simp add: searchWeb_def comp_simps)
  qed
qed

text \<open>
  C2. \<^verbatim>\<open>searchWeb\<close> returns an envelope whose source is \<^verbatim>\<open>none\<close> exactly when its error
  is present and its results are empty. When the markup adapter is reached (no credential,
  or the API adapter has failed), the response is a success, its text can be read and no
  result is extracted from it, the envelope has the source \<^verbatim>\<open>duckduckgo\<close>, no results,
  the total 0 and no error.
\<close>

theorem searchWeb_source_none_iff:
  "(\<exists>env. snd (searchWeb w q opts) = Inr env
      \<and> ((source env = ''none'') = (error env \<noteq> None \<and> results env = [])))
   \<and> (\<forall>response html.
        snd (try_perplexity w q (limit_of opts)) = Inr None
        \<and> fetch w (duckduckgo_request q) = Inr response \<and> ok response
        \<and> body_text response = Inr html \<and> extract_results html (limit_of opts) = []
        \<longrightarrow> snd (searchWeb w q opts)
              = Inr \<lparr>query = q, results = [], total = 0, error = None, timestamp = now w,
                     source = ''duckduckgo''\<rparr>)"
proof
  from searchWeb_returns [of w q opts]
  show "\<exists>env. snd (searchWeb w q opts) = Inr env
          \<and> ((source env = ''none'') = (error env \<noteq> None \<and> results env = []))"
    by auto
next
  show "\<forall>response html.
          snd (try_perplexity w q (limit_of opts)) = Inr None
          \<and> fetch w (duckduckgo_request q) = Inr response \<and> ok response
          \<and> body_text response = Inr html \<and> extract_results html (limit_of opts) = []
          \<longrightarrow> snd (searchWeb w q opts)
                = Inr \<lparr>query = q, results = [], total = 0, error = None, timestamp = now w,
                       source = ''duckduckgo''\<rparr>"
    by (simp add: searchWeb_def search_duckduckgo_def comp_simps parseDuckDuckGoResults_def
        parse_try_def)
qed

text \<open>
  A page without any anchor gives the empty success; without a network the envelope has
  the source \<^verbatim>\<open>none\<close> and the message of the failure.
\<close>

theorem searchWeb_source_none_iff_witness:
  "snd (searchWeb (serving ''<html></html>'') ''q'' no_options)
     = Inr \<lparr>query = ''q'', results = [], total = 0, error = None,
            timestamp = ''2025-11-01T00:00:00.000Z'', source = ''duckduckgo''\<rparr>
   \<and> snd (searchWeb offline ''q'' no_options)
       = Inr \<lparr>query = ''q'', results = [], total = 0, error = Some ''fetch failed'',
              timestamp = ''2025-11-01T00:00:00.000Z'', source = ''none''\<rparr>"
proof -
  have api: "snd (try_perplexity (serving ''<html></html>'') ''q'' (limit_of no_options)) = Inr None"
    by (simp add: try_perplexity_def serving_def ret_def)
  have page: "fetch (serving ''<html></html>'') (duckduckgo_request ''q'')
                = Inr (page_response ''<html></html>'')"
    by (simp add: serving_def)
  have body: "ok (page_response ''<html></html>'')"
    "body_text (page_response ''<html></html>'') = Inr ''<html></html>''"
    by (simp_all add: page_response_def)
  have none: "extract_results ''<html></html>'' (limit_of no_options) = []"
    by code_simp
  have time: "now (serving ''<html></html>'') = ''2025-11-01T00:00:00.000Z''"
    by (simp add: serving_def)
  have failed: "snd (searchWeb offline ''q'' no_options)
       = Inr \<lparr>query = ''q'', results = [], total = 0, error = Some ''fetch failed'',
              timestamp = ''2025-11-01T00:00:00.000Z'', source = ''none''\<rparr>"
    by (simp add: run_simps offline_def no_options_def)
  from searchWeb_source_none_iff [of "serving ''<html></html>''" "''q''" no_options]
    api page body none time failed
  show ?thesis by simp
qed

text \<open>
  C4. \<^verbatim>\<open>searchWeb\<close> returns an envelope in every world, whatever fails. When a credential
  is set and the API adapter throws, the envelope is the one of the markup adapter: the
  request to the markup provider is sent, the source is not \<^verbatim>\<open>perplexity\<close>, the query is
  the one asked and the total is the number of results.
\<close>

theorem searchWeb_falls_back:
  "(\<exists>env. snd (searchWeb w q opts) = Inr env)
   \<and> (\<forall>k ks e.
        PERPLEXITY_API_KEY w = Some (k # ks)
        \<and> snd (searchWithPerplexity w q (only_limit (limit_of opts))) = Inl e
        \<longrightarrow> (\<exists>env. snd (searchWeb w q opts) = Inr env
               \<and> snd (search_duckduckgo w q (limit_of opts)) = Inr env
               \<and> source env \<noteq> ''perplexity''
               \<and> query env = q \<and> total env = length (results env)
               \<and> Fetch (duckduckgo_request q) \<in> set (fst (searchWeb w q opts))))"
proof
  from searchWeb_returns [of w q opts] show "\<exists>env. snd (searchWeb w q opts) = Inr env"
    by blast
next
  show "\<forall>k ks e.
          PERPLEXITY_API_KEY w = Some (k # ks)
          \<and> snd (searchWithPerplexity w q (only_limit (limit_of opts))) = Inl e
          \<longrightarrow> (\<exists>env. snd (searchWeb w q opts) = Inr env
                 \<and> snd (search_duckduckgo w q (limit_of opts)) = Inr env
                 \<and> source env \<noteq> ''perplexity''
                 \<and> query env = q \<and> total env = length (results env)
                 \<and> Fetch (duckduckgo_request q) \<in> set (fst (searchWeb w q opts)))"
  proof (intro allI impI, elim conjE)
    fix k ks e
    assume key: "PERPLEXITY_API_KEY w = Some (k # ks)"
      and thrown: "snd (searchWithPerplexity w q (only_limit (limit_of opts))) = Inl e"
    from key thrown have api: "snd (try_perplexity w q (limit_of opts)) = Inr None"
      by (simp add: try_perplexity_def comp_simps)
    then have same: "snd (searchWeb w q opts) = snd (search_duckduckgo w q (limit_of opts))"
      by (simp add: searchWeb_def comp_simps)
    from api have sent: "Fetch (duckduckgo_request q) \<in> set (fst (searchWeb w q opts))"
      using search_duckduckgo_fetch [of q w "limit_of opts"]
      by (simp add: searchWeb_def comp_simps)
    from search_duckduckgo_returns [of w q "limit_of opts"] same sent
    show "\<exists>env. snd (searchWeb w q opts) = Inr env
            \<and> snd (search_duckduckgo w q (limit_of opts)) = Inr env
            \<and> source env \<noteq> ''perplexity''
            \<and> query env = q \<and> total env = length (results env)
            \<and> Fetch (duckduckgo_request q) \<in> set (fst (searchWeb w q opts))"
      by auto
  qed
qed

text \<open>With a credential and an API that cannot be reached, the page's result comes back.\<close>

theorem searchWeb_falls_back_witness:
  "PERPLEXITY_API_KEY (api_down two_links_page) = Some ''key''
   \<and> snd (searchWithPerplexity (api_down two_links_page) ''q'' (only_limit (limit_of (only_limit 1))))
       = Inl (TypeError ''fetch failed'')
   \<and> snd (searchWeb (api_down two_links_page) ''q'' (only_limit 1))
       = Inr \<lparr>query = ''q'',
              results = [\<lparr>title = ''T1'', url = ''http://x.com/a'', snippet = [], rank = 1\<rparr>],
              total = 1, error = None, timestamp = ''2025-11-01T00:00:00.000Z'',
              source = ''duckduckgo''\<rparr>
   \<and> (\<exists>env. snd (searchWeb (api_down two_links_page) ''q'' (only_limit 1)) = Inr env
         \<and> snd (search_duckduckgo (api_down two_links_page) ''q'' (limit_of (only_limit 1))) = Inr env
         \<and> source env \<noteq> ''perplexity''
         \<and> query env = ''q'' \<and> total env = length (results env)
         \<and> Fetch (duckduckgo_request ''q'')
             \<in> set (fst (searchWeb (api_down two_links_page) ''q'' (only_limit 1))))"
proof -
  have key: "PERPLEXITY_API_KEY (api_down two_links_page) = Some ''key''"
    by (simp add: api_down_def)
  have thrown: "snd (searchWithPerplexity (api_down two_links_page) ''q''
                      (only_limit (limit_of (only_limit 1))))
                  = Inl (TypeError ''fetch failed'')"
    by (simp add: run_simps api_down_def perplexity_request_def)
  have run: "snd (searchWeb (api_down two_links_page) ''q'' (only_limit 1))
       = Inr \<lparr>query = ''q'',
              results = [\<lparr>title = ''T1'', url = ''http://x.com/a'', snippet = [], rank = 1\<rparr>],
              total = 1, error = None, timestamp = ''2025-11-01T00:00:00.000Z'',
              source = ''duckduckgo''\<rparr>"
    by (simp add: run_simps api_down_def page_response_def perplexity_request_def
        duckduckgo_request_def two_links_page_results)
  from searchWeb_falls_back [of "api_down two_links_page" "''q''" "only_limit 1"] key thrown
  have "\<exists>env. snd (searchWeb (api_down two_links_page) ''q'' (only_limit 1)) = Inr env
         \<and> snd (search_duckduckgo (api_down two_links_page) ''q'' (limit_of (only_limit 1))) = Inr env
         \<and> source env \<noteq> ''perplexity''
         \<and> query env = ''q'' \<and> total env = length (results env)
         \<and> Fetch (duckduckgo_request ''q'')
             \<in> set (fst (searchWeb (api_down two_links_page) ''q'' (only_limit 1)))"
    by blast
  with key thrown run show ?thesis by blast
qed

text \<open>
  C5. Without a credential \<^verbatim>\<open>searchWeb\<close> is the markup adapter alone: the only request it
  sends is the one to the markup provider, none goes to the API, and the source of the
  envelope is \<^verbatim>\<open>duckduckgo\<close> or \<^verbatim>\<open>none\<close>.
\<close>

theorem searchWeb_without_credential:
  assumes "PERPLEXITY_API_KEY w = None"
  shows "searchWeb w q opts = search_duckduckgo w q (limit_of opts)
         \<and> (\<forall>req. Fetch req \<in> set (fst (searchWeb w q opts))
               \<longrightarrow> req = duckduckgo_request q
                   \<and> req_url req \<noteq> ''https://api.perplexity.ai/chat/completions'')
         \<and> (\<exists>env. snd (searchWeb w q opts) = Inr env
               \<and> (source env = ''duckduckgo'' \<or> source env = ''none''))"
proof -
  from assms have same: "searchWeb w q opts = search_duckduckgo w q (limit_of opts)"
    by (simp add: searchWeb_def try_perplexity_def ret_def bnd_def split: prod.splits)
  have url: "req_url (duckduckgo_request q) \<noteq> ''https://api.perplexity.ai/chat/completions''"
    by (simp add: duckduckgo_request_def)
  from search_duckduckgo_returns [of w q "limit_of opts"] same
  have "\<exists>env. snd (searchWeb w q opts) = Inr env
          \<and> (source env = ''duckduckgo'' \<or> source env = ''none'')"
    by auto
  with same url search_duckduckgo_fetches [of _ w q "limit_of opts"] show ?thesis
    by auto
qed

text \<open>Without a credential, the trace of the call is the one request to the markup provider.\<close>

theorem searchWeb_without_credential_witness:
  "PERPLEXITY_API_KEY (serving two_links_page) = None
   \<and> fst (searchWeb (serving two_links_page) ''q'' (only_limit 1))
       = [Fetch (duckduckgo_request ''q'')]
   \<and> searchWeb (serving two_links_page) ''q'' (only_limit 1)
       = search_duckduckgo (serving two_links_page) ''q'' (limit_of (only_limit 1))
   \<and> (\<exists>env. snd (searchWeb (serving two_links_page) ''q'' (only_limit 1)) = Inr env
         \<and> (source env = ''duckduckgo'' \<or> source env = ''none''))"
proof -
  have key: "PERPLEXITY_API_KEY (serving two_links_page) = None"
    by (simp add: serving_def)
  have trace: "fst (searchWeb (serving two_links_page) ''q'' (only_limit 1))
                 = [Fetch (duckduckgo_request ''q'')]"
    by (simp add: run_simps serving_def page_response_def two_links_page_results)
  from searchWeb_without_credential [OF key, of "''q''" "only_limit 1"] key trace
  show ?thesis by blast
qed

section \<open>Properties of searchWebMultiple\<close>

lemma promise_all_search_each:
  "\<exists>envs. snd (promise_all (search_each mw opts i qs)) = Inr envs
     \<and> length envs = length qs
     \<and> (\<forall>j < length qs.
          snd (searchWeb (query_world mw (i + j)) (qs ! j) opts) = Inr (envs ! j))"
proof (induction qs arbitrary: i)
  case Nil
  show ?case by simp
next
  case (Cons q qs)
  obtain t r where call: "searchWeb (query_world mw i) q opts = (t, r)"
    by (cases "searchWeb (query_world mw i) q opts")
  with searchWeb_returns [of "query_world mw i" q opts] obtain env where r: "r = Inr env"
    by auto
  from Cons.IH [of "i + 1"] obtain envs
    where rest: "snd (promise_all (search_each mw opts (i + 1) qs)) = Inr envs"
      and len: "length envs = length qs"
      and each: "\<forall>j < length qs.
                   snd (searchWeb (query_world mw (i + 1 + j)) (qs ! j) opts) = Inr (envs ! j)"
    by blast
  obtain ts where others: "promise_all (search_each mw opts (i + 1) qs) = (ts, Inr envs)"
    using rest by (cases "promise_all (search_each mw opts (i + 1) qs)") simp
  have "snd (promise_all (search_each mw opts i (q # qs))) = Inr (env # envs)"
    using call r others by simp
  moreover have "length (env # envs) = length (q # qs)"
    using len by simp
  moreover have "\<forall>j < length (q # qs).
      snd (searchWeb (query_world mw (i + j)) ((q # qs) ! j) opts) = Inr ((env # envs) ! j)"
  proof (intro allI impI)
    fix j
    assume j: "j < length (q # qs)"
    show "snd (searchWeb (query_world mw (i + j)) ((q # qs) ! j) opts) = Inr ((env # envs) ! j)"
    proof (cases j)
      case 0
      with call r show ?thesis by simp
    next
      case (Suc j')
      with j each show ?thesis by simp
    qed
  qed
  ultimately show ?case by blast
qed

lemma foldl_total: "foldl (\<lambda>sum r. sum + total r) a envs = a + sum_list (map total envs)"
  by (induction envs arbitrary: a) simp_all

text \<open>
  C6. \<^verbatim>\<open>searchWebMultiple\<close> returns an envelope that holds the queries as given and one
  result envelope per query, at the query's index: the envelope at index \<open>i\<close> is the one
  that \<^verbatim>\<open>searchWeb\<close> returns for the query at index \<open>i\<close>, and it carries that query.
  \<^verbatim>\<open>totalResults\<close> is the sum of the totals of these envelopes.
\<close>

theorem searchWebMultiple_aligned:
  "\<exists>out. snd (searchWebMultiple mw qs opts) = Inr out
     \<and> queries out = qs
     \<and> length (m_results out) = length qs
     \<and> (\<forall>i < length qs.
          snd (searchWeb (query_world mw i) (qs ! i) opts) = Inr (m_results out ! i)
          \<and> query (m_results out ! i) = qs ! i)
     \<and> totalResults out = sum_list (map total (m_results out))"
proof -
  from promise_all_search_each [of mw opts 0 qs] obtain envs
    where all: "snd (promise_all (search_each mw opts 0 qs)) = Inr envs"
      and len: "length envs = length qs"
      and each: "\<forall>j < length qs.
                   snd (searchWeb (query_world mw j) (qs ! j) opts) = Inr (envs ! j)"
    by auto
  have asked: "\<forall>i < length qs. query (envs ! i) = qs ! i"
  proof (intro allI impI)
    fix i
    assume "i < length qs"
    with each have "snd (searchWeb (query_world mw i) (qs ! i) opts) = Inr (envs ! i)"
      by simp
    with searchWeb_returns [of "query_world mw i" "qs ! i" opts]
    show "query (envs ! i) = qs ! i" by auto
  qed
  from all have "snd (searchWebMultiple mw qs opts)
      = Inr \<lparr>queries = qs, m_results = envs,
             totalResults = sum_list (map total envs),
             m_timestamp = now (join_world mw)\<rparr>"
    by (simp add: searchWebMultiple_def comp_simps foldl_total)
  with len each asked show ?thesis by simp
qed

text \<open>
  The queries \<^verbatim>\<open>a\<close> and \<^verbatim>\<open>b\<close>, where no request of the first call gets through and the
  second call finds the page with two links.
\<close>

theorem searchWebMultiple_aligned_witness:
  "snd (searchWebMultiple two_calls [''a'', ''b''] (only_limit 1))
     = Inr \<lparr>queries = [''a'', ''b''],
            m_results =
              [\<lparr>query = ''a'', results = [], total = 0, error = Some ''fetch failed'',
                 timestamp = ''2025-11-01T00:00:00.000Z'', source = ''none''\<rparr>,
               \<lparr>query = ''b'',
                 results = [\<lparr>title = ''T1'', url = ''http://x.com/a'', snippet = [], rank = 1\<rparr>],
                 total = 1, error = None,
                 timestamp = ''2025-11-01T00:00:00.000Z'', source = ''duckduckgo''\<rparr>],
            totalResults = 1,
            m_timestamp = ''2025-11-01T00:00:00.000Z''\<rparr>
   \<and> (\<exists>out. snd (searchWebMultiple two_calls [''a'', ''b''] (only_limit 1)) = Inr out
         \<and> length (m_results out) = length [''a'', ''b'']
         \<and> query (m_results out ! 0) = ''a''
         \<and> query (m_results out ! 1) = ''b''
         \<and> totalResults out = sum_list (map total (m_results out)))"
proof -
  have run: "snd (searchWebMultiple two_calls [''a'', ''b''] (only_limit 1))
     = Inr \<lparr>queries = [''a'', ''b''],
            m_results =
              [\<lparr>query = ''a'', results = [], total = 0, error = Some ''fetch failed'',
                 timestamp = ''2025-11-01T00:00:00.000Z'', source = ''none''\<rparr>,
               \<lparr>query = ''b'',
                 results = [\<lparr>title = ''T1'', url = ''http://x.com/a'', snippet = [], rank = 1\<rparr>],
                 total = 1, error = None,
                 timestamp = ''2025-11-01T00:00:00.000Z'', source = ''duckduckgo''\<rparr>],
            totalResults = 1,
            m_timestamp = ''2025-11-01T00:00:00.000Z''\<rparr>"
    by (simp add: searchWebMultiple_def two_calls_def run_simps offline_def serving_def
        page_response_def two_links_page_results)
  from searchWebMultiple_aligned [of two_calls "[''a'', ''b'']" "only_limit 1"] obtain out
    where out: "snd (searchWebMultiple two_calls [''a'', ''b''] (only_limit 1)) = Inr out"
      and len: "length (m_results out) = length [''a'', ''b'']"
      and each: "\<forall>i < length [''a'', ''b''].
          snd (searchWeb (query_world two_calls i) ([''a'', ''b''] ! i) (only_limit 1))
            = Inr (m_results out ! i)
          \<and> query (m_results out ! i) = [''a'', ''b''] ! i"
      and sum: "totalResults out = sum_list (map total (m_results out))"
    by blast
  from each have "query (m_results out ! 0) = ''a''" and "query (m_results out ! 1) = ''b''"
    by auto
  with run out len sum show ?thesis by blast
qed

section \<open>Properties of searchAndFetch\<close>

lemma fetchWebPage_error:
  "snd (fetchWebPage w u) = Inl e \<Longrightarrow> \<exists>m. e = Error (''Failed to fetch '' @ u @ '': '' @ m)"
  by (auto simp add: fetchWebPage_def comp_simps split: sum.splits if_splits)

lemma fetch_loop_eq:
  "snd (fetch_loop fw i rs acc)
     = Inr (acc @ map (\<lambda>j. fetched_item fw (i + j) (rs ! j)) [0..<length rs])"
proof (induction rs arbitrary: i acc)
  case Nil
  show ?case by (simp add: ret_def)
next
  case (Cons r rs)
  have "snd (fetch_loop fw i (r # rs) acc)
          = snd (fetch_loop fw (i + 1) rs (acc @ [fetched_item fw i r]))"
    by (cases "snd (fetchWebPage (page_world fw i) (url r))")
       (simp_all add: comp_simps fetched_item_def)
  also have "\<dots> = Inr ((acc @ [fetched_item fw i r])
                      @ map (\<lambda>j. fetched_item fw (i + 1 + j) (rs ! j)) [0..<length rs])"
    by (rule Cons.IH)
  also have "(acc @ [fetched_item fw i r])
               @ map (\<lambda>j. fetched_item fw (i + 1 + j) (rs ! j)) [0..<length rs]
             = acc @ map (\<lambda>j. fetched_item fw (i + j) ((r # rs) ! j)) [0..<length (r # rs)]"
    by (simp add: map_upt_Suc del: upt_Suc)
  finally show ?case .
qed

lemma nth_slice_to: "i < length (slice_to xs n) \<Longrightarrow> slice_to xs n ! i = xs ! i"
  by (simp add: slice_to_def split: if_splits)

text \<open>
  C8. \<^verbatim>\<open>searchAndFetch\<close> returns, whatever the page fetches do. \<^verbatim>\<open>fetchedContent\<close> has one
  element for each of the sliced results, at the index of its result and with its title,
  URL, snippet and rank. Where the fetch of the page fails, the element has the content
  \<^verbatim>\<open>null\<close> and, as \<^verbatim>\<open>fetchError\<close>, the message of the failure, which names the URL;
  where it succeeds, the element has the first 5000 code units of the page text and no
  \<^verbatim>\<open>fetchError\<close>. A failure at one index leaves the elements at the other indices as
  their own fetches make them.
\<close>

theorem searchAndFetch_isolates_failures:
  "\<exists>found out.
     snd (searchWeb (search_world fw) q (only_limit (fetchCount_of opts))) = Inr found
     \<and> snd (searchAndFetch fw q opts) = Inr out
     \<and> searchResults out = results found
     \<and> length (fetchedContent out) = length (slice_to (results found) (fetchCount_of opts))
     \<and> (\<forall>i < length (fetchedContent out).
          title (fetchedContent out ! i) = title (results found ! i)
          \<and> url (fetchedContent out ! i) = url (results found ! i)
          \<and> snippet (fetchedContent out ! i) = snippet (results found ! i)
          \<and> rank (fetchedContent out ! i) = rank (results found ! i)
          \<and> (case snd (fetchWebPage (page_world fw i) (url (results found ! i))) of
                Inl e \<Rightarrow>
                  content (fetchedContent out ! i) = None
                  \<and> fetchError (fetchedContent out ! i) = Some (message e)
                  \<and> (\<exists>m. message e = ''Failed to fetch '' @ url (results found ! i) @ '': '' @ m)
              | Inr c \<Rightarrow>
                  content (fetchedContent out ! i) = Some (take 5000 c)
                  \<and> fetchError (fetchedContent out ! i) = None))"
proof -
  let ?n = "fetchCount_of opts"
  from searchWeb_returns [of "search_world fw" q "only_limit ?n"] obtain found
    where found: "snd (searchWeb (search_world fw) q (only_limit ?n)) = Inr found"
    by blast
  let ?rs = "slice_to (results found) ?n"
  define out where "out = \<lparr>e_query = q, searchResults = results found,
      fetchedContent = map (\<lambda>j. fetched_item fw j (?rs ! j)) [0..<length ?rs],
      e_timestamp = now (final_world fw)\<rparr>"
  from found have run: "snd (searchAndFetch fw q opts) = Inr out"
    using fetch_loop_eq [of fw 0 ?rs "[]"]
    by (simp add: searchAndFetch_def comp_simps out_def)
  have sr: "searchResults out = results found"
    by (simp add: out_def)
  have fc: "fetchedContent out = map (\<lambda>j. fetched_item fw j (?rs ! j)) [0..<length ?rs]"
    by (simp add: out_def)
  then have len: "length (fetchedContent out) = length ?rs"
    by simp
  have each: "\<forall>i < length (fetchedContent out).
      title (fetchedContent out ! i) = title (results found ! i)
      \<and> url (fetchedContent out ! i) = url (results found ! i)
      \<and> snippet (fetchedContent out ! i) = snippet (results found ! i)
      \<and> rank (fetchedContent out ! i) = rank (results found ! i)
      \<and> (case snd (fetchWebPage (page_world fw i) (url (results found ! i))) of
            Inl e \<Rightarrow>
              content (fetchedContent out ! i) = None
              \<and> fetchError (fetchedContent out ! i) = Some (message e)
              \<and> (\<exists>m. message e = ''Failed to fetch '' @ url (results found ! i) @ '': '' @ m)
          | Inr c \<Rightarrow>
              content (fetchedContent out ! i) = Some (take 5000 c)
              \<and> fetchError (fetchedContent out ! i) = None)"
  proof (intro allI impI)
    fix i
    assume "i < length (fetchedContent out)"
    with len have i: "i < length ?rs" by simp
    then have item: "fetchedContent out ! i = fetched_item fw i (results found ! i)"
      by (simp add: fc nth_slice_to)
    show "title (fetchedContent out ! i) = title (results found ! i)
      \<and> url (fetchedContent out ! i) = url (results found ! i)
      \<and> snippet (fetchedContent out ! i) = snippet (results found ! i)
      \<and> rank (fetchedContent out ! i) = rank (results found ! i)
      \<and> (case snd (fetchWebPage (page_world fw i) (url (results found ! i))) of
            Inl e \<Rightarrow>
              content (fetchedContent out ! i) = None
              \<and> fetchError (fetchedContent out ! i) = Some (message e)
              \<and> (\<exists>m. message e = ''Failed to fetch '' @ url (results found ! i) @ '': '' @ m)
          | Inr c \<Rightarrow>
              content (fetchedContent out ! i) = Some (take 5000 c)
              \<and> fetchError (fetchedContent out ! i) = None)"
    proof (cases "snd (fetchWebPage (page_world fw i) (url (results found ! i)))")
      case (Inl e)
      from fetchWebPage_error [OF Inl] obtain m
        where "e = Error (''Failed to fetch '' @ url (results found ! i) @ '': '' @ m)"
        by blast
      with Inl show ?thesis
        by (simp only: item) (simp add: fetched_item_def enrich_def)
    next
      case (Inr c)
      then show ?thesis
        by (simp only: item) (simp add: fetched_item_def enrich_def)
    qed
  qed
  from found run sr len each show ?thesis by blast
qed

text \<open>
  The search finds the page with two links; the fetch of the first result times out and
  the second result's page is read.
\<close>

lemma two_links_page_both:
  "parseDuckDuckGoResults (JString two_links_page) 2
     = ([], [\<lparr>title = ''T1'', url = ''http://x.com/a'', snippet = [], rank = 1\<rparr>,
             \<lparr>title = ''T2'', url = ''http://y.com/'', snippet = [], rank = 2\<rparr>])"
  by code_simp

lemma hello_page_text: "extract_text hello_page = ''Hello world''"
  by code_simp

theorem searchAndFetch_isolates_failures_witness:
  "snd (searchAndFetch two_fetches ''q'' fetch_two)
     = Inr \<lparr>e_query = ''q'',
            searchResults =
              [\<lparr>title = ''T1'', url = ''http://x.com/a'', snippet = [], rank = 1\<rparr>,
               \<lparr>title = ''T2'', url = ''http://y.com/'', snippet = [], rank = 2\<rparr>],
            fetchedContent =
              [\<lparr>title = ''T1'', url = ''http://x.com/a'', snippet = [], rank = 1,
                 content = None,
                 fetchError = Some ''Failed to fetch http://x.com/a: The operation was aborted due to timeout''\<rparr>,
               \<lparr>title = ''T2'', url = ''http://y.com/'', snippet = [], rank = 2,
                 content = Some ''Hello world'', fetchError = None\<rparr>],
            e_timestamp = ''2025-11-01T00:00:00.000Z''\<rparr>
   \<and> (\<exists>found out.
         snd (searchWeb (search_world two_fetches) ''q'' (only_limit (fetchCount_of fetch_two)))
           = Inr found
         \<and> snd (searchAndFetch two_fetches ''q'' fetch_two) = Inr out
         \<and> searchResults out = results found
         \<and> length (fetchedContent out)
             = length (slice_to (results found) (fetchCount_of fetch_two)))"
proof -
  have run: "snd (searchAndFetch two_fetches ''q'' fetch_two)
     = Inr \<lparr>e_query = ''q'',
            searchResults =
              [\<lparr>title = ''T1'', url = ''http://x.com/a'', snippet = [], rank = 1\<rparr>,
               \<lparr>title = ''T2'', url = ''http://y.com/'', snippet = [], rank = 2\<rparr>],
            fetchedContent =
              [\<lparr>title = ''T1'', url = ''http://x.com/a'', snippet = [], rank = 1,
                 content = None,
                 fetchError = Some ''Failed to fetch http://x.com/a: The operation was aborted due to timeout''\<rparr>,
               \<lparr>title = ''T2'', url = ''http://y.com/'', snippet = [], rank = 2,
                 content = Some ''Hello world'', fetchError = None\<rparr>],
            e_timestamp = ''2025-11-01T00:00:00.000Z''\<rparr>"
    by (simp add: searchAndFetch_def fetchWebPage_def run_simps fetchCount_of_def slice_to_def
        enrich_def two_fetches_def fetch_two_def serving_def timing_out_def offline_def
        page_response_def two_links_page_both hello_page_text)
  from searchAndFetch_isolates_failures [of two_fetches "''q''" fetch_two]
  have "\<exists>found out.
         snd (searchWeb (search_world two_fetches) ''q'' (only_limit (fetchCount_of fetch_two)))
           = Inr found
         \<and> snd (searchAndFetch two_fetches ''q'' fetch_two) = Inr out
         \<and> searchResults out = results found
         \<and> length (fetchedContent out)
             = length (slice_to (results found) (fetchCount_of fetch_two))"
    by blast
  with run show ?thesis by blast
qed


end
